theory Spec2Isabelle
  imports Main "HOL-Library.AList"
begin

section \<open>Python strings and paths\<close>

text \<open>
  A Python \<open>str\<close> is modelled as a \<open>string\<close>, one \<open>char\<close> per code point, so the
  model covers names and settings written in single-byte characters. The exceptions the
  code can raise are values of \<open>py_error\<close>; a function that may raise returns
  \<open>py_error + 'a\<close>, with \<open>Inl\<close> for the exception.
\<close>

datatype py_error =
    IndexError
  | ValueError
  | KeyError string
  | TypeError
  | CalledProcessError string
  | RuntimeError
  | FileNotFoundError string
  | OSError string

text \<open>\<open>sep.join(xs)\<close>.\<close>

fun join :: "'a list \<Rightarrow> 'a list list \<Rightarrow> 'a list" where
  "join sep [] = []"
| "join sep [x] = x"
| "join sep (x # y # ys) = x @ sep @ join sep (y # ys)"

text \<open>
  \<open>s.split(c)\<close> for a one-character separator: the result always has at least one
  element, and \<open>''.split(c)\<close> is \<open>['']\<close>.
\<close>

fun split :: "'a \<Rightarrow> 'a list \<Rightarrow> 'a list list" where
  "split c [] = [[]]"
| "split c (x # xs) =
     (if x = c then [] # split c xs
      else (case split c xs of [] \<Rightarrow> [[x]] | w # ws \<Rightarrow> (x # w) # ws))"

text \<open>\<open>s.rfind(c)\<close>: the highest index of \<open>c\<close> in \<open>s\<close>, or \<open>-1\<close>.\<close>

definition rfind :: "'a \<Rightarrow> 'a list \<Rightarrow> int" where
  "rfind c s =
     (if c \<in> set s
      then int (length s) - 1 - int (length (takeWhile (\<lambda>x. x \<noteq> c) (rev s)))
      else - 1)"

text \<open>The slice \<open>s[i:j]\<close> for indices that are not negative.\<close>

definition slice :: "'a list \<Rightarrow> nat \<Rightarrow> nat \<Rightarrow> 'a list" where
  "slice s i j = take (j - i) (drop i s)"

text \<open>
  \<open>os.path.splitext\<close> (posixpath): the extension starts at the last dot of the last path
  component, unless that component has only dots before it.
\<close>

definition splitext :: "string \<Rightarrow> string \<times> string" where
  "splitext p =
     (let sepIndex = rfind CHR ''/'' p;
          dotIndex = rfind CHR ''.'' p
      in if dotIndex > sepIndex \<and>
            list_ex (\<lambda>ch. ch \<noteq> CHR ''.'') (slice p (nat (sepIndex + 1)) (nat dotIndex))
         then (take (nat dotIndex) p, drop (nat dotIndex) p)
         else (p, []))"

text \<open>\<open>os.path.basename\<close> (posixpath): what follows the last slash.\<close>

definition basename :: "string \<Rightarrow> string" where
  "basename p = drop (nat (rfind CHR ''/'' p + 1)) p"

text \<open>\<open>os.path.join(a, b)\<close> (posixpath), for two arguments.\<close>

definition path_join :: "string \<Rightarrow> string \<Rightarrow> string" where
  "path_join a b =
     (if b \<noteq> [] \<and> hd b = CHR ''/'' then b
      else if a = [] \<or> last a = CHR ''/'' then a @ b
      else a @ ''/'' @ b)"

text \<open>
  \<open>s.replace(old, new)\<close>: every occurrence of \<open>old\<close>, found left to right without
  overlap, becomes \<open>new\<close>. With an empty \<open>old\<close>, Python puts \<open>new\<close> before every
  character and at the end.
\<close>

function replace :: "'a list \<Rightarrow> 'a list \<Rightarrow> 'a list \<Rightarrow> 'a list" where
  "replace old new [] = (if old = [] then new else [])"
| "replace old new (x # xs) =
     (if old = [] then new @ x # replace old new xs
      else if take (length old) (x # xs) = old
      then new @ replace old new (drop (length old) (x # xs))
      else x # replace old new xs)"
  by pat_completeness auto
termination
  by (relation "measure (\<lambda>(old, new, s). length s)") auto

section \<open>The product name codec\<close>

text \<open>
  The dictionary \<open>prodDict\<close> of \<open>_unpackNetCDFProductName\<close>, with its misspelled key
  \<open>extention\<close>. The keys \<open>subProduct\<close> and \<open>timeIndex\<close> hold \<open>None\<close> or a string.
  The key \<open>parameter\<close> is not set by the parser: \<open>createCogFileName\<close> sets it before
  packing, so it is \<open>None\<close> here while the key is missing.
\<close>

record prodElements =
  project :: string
  product :: string
  productDate :: string
  roi :: string
  sensor :: string
  version :: string
  extention :: string
  subProduct :: "string option"
  timeIndex :: "string option"
  parameter :: "string option"

text \<open>
  \<open>_unpackNetCDFProductName\<close>. \<open>parts[2]\<close> to \<open>parts[6]\<close> raise IndexError when the stem
  has fewer than seven segments; segments after the seventh are never read.
  \<open>productParts[0]\<close> always exists.
\<close>

definition unpackNetCDFProductName :: "string \<Rightarrow> bool \<Rightarrow> py_error + prodElements" where
  "unpackNetCDFProductName productname hasTimeIndex =
     (let filename = fst (splitext productname);
          file_ext = snd (splitext productname);
          parts = split CHR ''_'' filename
      in if length parts < 7 then Inl IndexError
         else
           let productParts = split CHR ''-'' (parts ! 2);
               prodDict = \<lparr> project = join ''_'' (take 2 parts),
                            product = productParts ! 0,
                            productDate = parts ! 3,
                            roi = parts ! 4,
                            sensor = parts ! 5,
                            version = parts ! 6,
                            extention = file_ext,
                            subProduct = None,
                            timeIndex = None,
                            parameter = None \<rparr>
           in if length productParts = 1 \<and> \<not> hasTimeIndex
              then Inr (prodDict\<lparr>subProduct := None, timeIndex := None\<rparr>)
              else if length productParts = 2
              then (if hasTimeIndex
                    then Inr (prodDict\<lparr>subProduct := None, timeIndex := Some (productParts ! 1)\<rparr>)
                    else Inr (prodDict\<lparr>subProduct := Some (productParts ! 1), timeIndex := None\<rparr>))
              else if length productParts = 3 \<and> hasTimeIndex
              then Inr (prodDict\<lparr>subProduct := Some (productParts ! 1),
                                 timeIndex := Some (productParts ! 2)\<rparr>)
              else Inl ValueError)"

text \<open>Python's truth value of \<open>None\<close> or a string: \<open>None\<close> and \<open>''\<close> are false.\<close>

fun truthy :: "string option \<Rightarrow> bool" where
  "truthy None = False"
| "truthy (Some s) = (s \<noteq> [])"

text \<open>
  \<open>_packCOGProductName\<close>. Reading the key \<open>parameter\<close> raises KeyError while it is
  missing. A part that is tested with \<open>if\<close> is only formatted when it is a non-empty
  string, so \<open>the\<close> is applied to \<open>Some\<close> only.
\<close>

definition packCOGProductName :: "prodElements \<Rightarrow> py_error + string" where
  "packCOGProductName prodElements =
     (case parameter prodElements of
        None \<Rightarrow> Inl (KeyError ''parameter'')
      | Some param \<Rightarrow>
          let productTag =
                (if truthy (subProduct prodElements)
                 then product prodElements @ ''-'' @ the (subProduct prodElements) @ ''-'' @ param
                 else product prodElements @ ''-'' @ param);
              productTag' =
                (if truthy (timeIndex prodElements)
                 then productTag @ ''-'' @ the (timeIndex prodElements)
                 else productTag)
          in Inr (project prodElements @ ''_'' @ productTag' @ ''_'' @ productDate prodElements
                  @ ''_'' @ roi prodElements @ ''_'' @ sensor prodElements
                  @ ''_'' @ version prodElements @ ''.tiff''))"

text \<open>
  \<open>createCogFileName\<close>: \<open>outBand\<close> is \<open>None\<close> or a string, and an empty string counts as
  not given.
\<close>

definition createCogFileName :: "string \<Rightarrow> string \<Rightarrow> string option \<Rightarrow> bool \<Rightarrow> py_error + string" where
  "createCogFileName inFile inBand outBand hasTimeIndex =
     (case unpackNetCDFProductName inFile hasTimeIndex of
        Inl e \<Rightarrow> Inl e
      | Inr prodElements \<Rightarrow>
          packCOGProductName
            (if truthy outBand
             then prodElements\<lparr>parameter := Some (the outBand)\<rparr>
             else prodElements\<lparr>parameter := Some inBand\<rparr>))"

section \<open>Attribute translation\<close>

text \<open>
  An attribute value as the NetCDF library hands it over: a string, a number, a plain
  Python list of numbers, or a \<open>numpy.ndarray\<close> of numbers. The type \<open>'e\<close> is the type of
  the numbers. A Python \<open>dict\<close> is a list of key and value pairs in insertion order, with
  every key once; \<open>metadata[key] = v\<close> is \<open>AList.update\<close>, which overwrites in place or
  appends.
\<close>

datatype 'e py_value =
    PyStr string
  | PyNum 'e
  | PyList "'e list"
  | NdArray "'e list"

type_synonym 'e py_dict = "(string \<times> 'e py_value) list"

text \<open>The dictionary \<open>cogCfgDict['attributeConversion']\<close>.\<close>

record conversionDict =
  history :: string
  listEnclosure :: string
  listSeparator :: string
  removeAttributeLst :: "string list"

text \<open>
  What the translation takes from the Python runtime: \<open>str\<close> of one array element, the
  text an f-string gives for a value that is not a string, and the date \<open>_today()\<close>
  returns.
\<close>

record 'e py_runtime =
  str_elem :: "'e \<Rightarrow> string"
  format_other :: "'e py_value \<Rightarrow> string"
  today :: string

text \<open>An f-string field \<open>{v}\<close>: a string is put in as it is.\<close>

definition py_format :: "'e py_runtime \<Rightarrow> 'e py_value \<Rightarrow> string" where
  "py_format rt v = (case v of PyStr s \<Rightarrow> s | _ \<Rightarrow> format_other rt v)"

text \<open>Python's \<open>str\<close> of an integer, for arrays of integers.\<close>

definition digit_char :: "nat \<Rightarrow> char" where
  "digit_char d = ''0123456789'' ! d"

fun str_nat :: "nat \<Rightarrow> string" where
  "str_nat n = (if n < 10 then [digit_char n] else str_nat (n div 10) @ [digit_char (n mod 10)])"

declare str_nat.simps [simp del]

definition str_int :: "int \<Rightarrow> string" where
  "str_int i = (if i < 0 then ''-'' @ str_nat (nat (- i)) else str_nat (nat i))"

text \<open>The module constant \<open>__version__\<close>.\<close>

definition cog_version :: string where
  "cog_version = ''1.0.0''"

text \<open>
  The loop of \<open>_convertFileAttributes\<close> over \<open>attributeDict.items()\<close>, with the dictionary
  \<open>metadata\<close> built so far. \<open>value + f'\n{history}'\<close> raises TypeError unless the value is
  a string, and \<open>attributeDict["parent_identifier"]\<close> raises KeyError when the key is
  missing.
\<close>

fun convertFileAttributes_items ::
  "'e py_runtime \<Rightarrow> 'e py_dict \<Rightarrow> conversionDict \<Rightarrow> string \<Rightarrow> 'e py_dict \<Rightarrow> 'e py_dict
     \<Rightarrow> py_error + 'e py_dict" where
  "convertFileAttributes_items rt attributeDict conv filename [] metadata = Inr metadata"
| "convertFileAttributes_items rt attributeDict conv filename ((key, v) # items) metadata =
     (if key \<in> set (removeAttributeLst conv)
      then convertFileAttributes_items rt attributeDict conv filename items metadata
      else if key = ''history''
      then (let h = replace ''<version>'' cog_version
                      (replace ''<processDateISO>'' (today rt) (history conv))
            in case v of
                 PyStr s \<Rightarrow>
                   convertFileAttributes_items rt attributeDict conv filename items
                     (AList.update key (PyStr (s @ [CHR 0x0A] @ h)) metadata)
               | _ \<Rightarrow> Inl TypeError)
      else if key = ''identifier''
      then (let ident = replace ''c_gls_'' [] (fst (splitext filename))
            in case map_of attributeDict ''parent_identifier'' of
                 None \<Rightarrow> Inl (KeyError ''parent_identifier'')
               | Some parent \<Rightarrow>
                   convertFileAttributes_items rt attributeDict conv filename items
                     (AList.update key (PyStr (py_format rt parent @ '':'' @ ident)) metadata))
      else convertFileAttributes_items rt attributeDict conv filename items
             (AList.update key v metadata))"

definition convertFileAttributes ::
  "'e py_runtime \<Rightarrow> 'e py_dict \<Rightarrow> conversionDict \<Rightarrow> string \<Rightarrow> py_error + 'e py_dict" where
  "convertFileAttributes rt attributeDict conv filename =
     convertFileAttributes_items rt attributeDict conv filename attributeDict []"


text \<open>
  The loop of \<open>_convertBandAttributes\<close>. Only a value whose type is \<open>numpy.ndarray\<close> is
  joined; the length of \<open>listEnclosure\<close> is looked at when such a value is met.
\<close>

fun convertBandAttributes_items ::
  "'e py_runtime \<Rightarrow> conversionDict \<Rightarrow> 'e py_dict \<Rightarrow> 'e py_dict \<Rightarrow> py_error + 'e py_dict" where
  "convertBandAttributes_items rt conv [] metadata = Inr metadata"
| "convertBandAttributes_items rt conv ((key, v) # items) metadata =
     (if key \<in> set (removeAttributeLst conv)
      then convertBandAttributes_items rt conv items metadata
      else case v of
             NdArray xs \<Rightarrow>
               (let lstStr = join (listSeparator conv) (map (str_elem rt) xs)
                in if length (listEnclosure conv) = 2
                   then convertBandAttributes_items rt conv items
                          (AList.update key
                             (PyStr ([listEnclosure conv ! 0] @ lstStr @ [listEnclosure conv ! 1]))
                             metadata)
                   else if length (listEnclosure conv) \<noteq> 0
                   then Inl ValueError
                   else convertBandAttributes_items rt conv items
                          (AList.update key (PyStr lstStr) metadata))
           | _ \<Rightarrow> convertBandAttributes_items rt conv items (AList.update key v metadata))"

text \<open>The test \<open>type(value) == numpy.ndarray\<close>.\<close>

fun is_ndarray :: "'e py_value \<Rightarrow> bool" where
  "is_ndarray (NdArray xs) = True"
| "is_ndarray v = False"

text \<open>A key and value pair that the removal list lets through.\<close>

definition kept :: "conversionDict \<Rightarrow> string \<times> 'e py_value \<Rightarrow> bool" where
  "kept conv kv = (fst kv \<notin> set (removeAttributeLst conv))"

text \<open>
  What the loop of \<open>_convertBandAttributes\<close> stores for a kept pair when it does not
  raise: a \<open>numpy.ndarray\<close> becomes the joined string between the characters of the
  enclosure, which has length 2 or 0 then; every other value, a plain Python list too, is
  stored as it is.
\<close>

definition band_entry ::
  "'e py_runtime \<Rightarrow> conversionDict \<Rightarrow> string \<times> 'e py_value \<Rightarrow> string \<times> 'e py_value" where
  "band_entry rt conv kv =
     (case snd kv of
        NdArray xs \<Rightarrow>
          (fst kv,
           PyStr (take 1 (listEnclosure conv)
                  @ join (listSeparator conv) (map (str_elem rt) xs)
                  @ drop 1 (listEnclosure conv)))
      | _ \<Rightarrow> kv)"

definition convertBandAttributes ::
  "'e py_runtime \<Rightarrow> 'e py_dict \<Rightarrow> conversionDict \<Rightarrow> py_error + 'e py_dict" where
  "convertBandAttributes rt attributeDict conv =
     convertBandAttributes_items rt conv attributeDict []"

section \<open>The naming rules as the specification words them\<close>

text \<open>
  Modelled from the spec: the table of Parse, from the hyphen parts of the third segment
  and \<open>hasTimeIndex\<close> to the pair (\<open>subProduct\<close>, \<open>timeIndex\<close>); \<open>None\<close> stands for
  "fails with NameGrammarError".
\<close>

definition spec_table :: "string list \<Rightarrow> bool \<Rightarrow> (string option \<times> string option) option" where
  "spec_table productParts hasTimeIndex =
     (if length productParts = 1 \<and> \<not> hasTimeIndex then Some (None, None)
      else if length productParts = 2 \<and> hasTimeIndex then Some (None, Some (productParts ! 1))
      else if length productParts = 2 \<and> \<not> hasTimeIndex then Some (Some (productParts ! 1), None)
      else if length productParts = 3 \<and> hasTimeIndex
      then Some (Some (productParts ! 1), Some (productParts ! 2))
      else None)"

text \<open>
  Modelled from the spec: the name a round trip through Parse and Pack is expected to
  give. It is the source name with the band name put into the product tag (after the
  sub-product, before the time index) and the extension replaced by \<open>.tiff\<close>.
\<close>

definition spec_roundtrip_name :: "string \<Rightarrow> string \<Rightarrow> bool \<Rightarrow> string" where
  "spec_roundtrip_name productname band hasTimeIndex =
     (let parts = split CHR ''_'' (fst (splitext productname));
          productParts = split CHR ''-'' (parts ! 2);
          tagParts = (if hasTimeIndex then butlast productParts @ [band, last productParts]
                      else productParts @ [band])
      in join ''_'' (take 2 parts @ [join ''-'' tagParts] @ drop 3 parts) @ ''.tiff'')"

text \<open>
  Modelled from the spec: the serialised value of TranslateBandAttributes, for a key that
  is kept. A homogeneous numeric sequence, be it a plain list of numbers or an array, is
  joined with the separator and wrapped in the two characters of the enclosure, or left
  bare when the enclosure is empty; a scalar value is passed through.
\<close>

definition spec_band_entry ::
  "'e py_runtime \<Rightarrow> conversionDict \<Rightarrow> string \<times> 'e py_value \<Rightarrow> string \<times> 'e py_value" where
  "spec_band_entry rt conv kv =
     (case snd kv of
        NdArray xs \<Rightarrow>
          (fst kv,
           PyStr (take 1 (listEnclosure conv)
                  @ join (listSeparator conv) (map (str_elem rt) xs)
                  @ drop 1 (listEnclosure conv)))
      | PyList xs \<Rightarrow>
          (fst kv,
           PyStr (take 1 (listEnclosure conv)
                  @ join (listSeparator conv) (map (str_elem rt) xs)
                  @ drop 1 (listEnclosure conv)))
      | _ \<Rightarrow> kv)"


section \<open>The file system and the operating system calls\<close>

text \<open>
  The file system maps a path, as the string the code builds, to a regular file with its
  content and permission bits. Directories, links and two names for one file are outside
  the model: a path that is not mapped does not exist.
\<close>

record file_node =
  content :: string
  perm :: nat

type_synonym filesystem = "string \<Rightarrow> file_node option"

text \<open>
  What the code cannot decide is given by the environment: whether a call fails for a
  reason of its own (permissions, a full disk), how far a failing copy gets, the mode of
  a new file, and what the external programs and the GDAL library do to the file system.
  \<open>shell_run\<close> gives the exit status (\<open>True\<close> for 0) and the file system a command leaves.
\<close>

datatype os_call =
    Remove string
  | Copy string string
  | Rename string string
  | Chmod string nat

record 'e os_env =
  fails :: "os_call \<Rightarrow> bool"
  copy_stops :: "string \<Rightarrow> string \<Rightarrow> nat option"
  create_mode :: nat
  shell_run :: "string \<Rightarrow> filesystem \<Rightarrow> bool \<times> filesystem"
  gdal_open :: "string \<Rightarrow> filesystem \<Rightarrow> bool"
  gdal_write :: "string \<Rightarrow> 'e py_dict \<Rightarrow> 'e py_dict \<Rightarrow> string option \<Rightarrow> filesystem \<Rightarrow> filesystem"

text \<open>
  The state of a run: the file system now, and every file system the calls have produced
  so far, oldest first, which is what an observer can have seen.
\<close>

record os_state =
  files :: filesystem
  seen :: "filesystem list"

definition isfile :: "'a os_state_scheme \<Rightarrow> string \<Rightarrow> bool" where
  "isfile st p = (files st p \<noteq> None)"

definition commit :: "filesystem \<Rightarrow> 'a os_state_scheme \<Rightarrow> 'a os_state_scheme" where
  "commit fs st = st\<lparr>files := fs, seen := seen st @ [fs]\<rparr>"

text \<open>
  A statement that may raise takes the state and returns the exception, if any, with the
  state it leaves. \<open>and_then\<close> is statement sequencing: an exception skips what follows.
\<close>

type_synonym 's step = "'s \<Rightarrow> py_error option \<times> 's"

definition and_then :: "'s step \<Rightarrow> 's step \<Rightarrow> 's step" where
  "and_then a b st = (case a st of (Some e, st') \<Rightarrow> (Some e, st') | (None, st') \<Rightarrow> b st')"

definition pass :: "'s step" where
  "pass st = (None, st)"

text \<open>\<open>os.remove(p)\<close>.\<close>

definition os_remove :: "'e os_env \<Rightarrow> string \<Rightarrow> 'a os_state_scheme step" where
  "os_remove env p st =
     (case files st p of
        None \<Rightarrow> (Some (FileNotFoundError p), st)
      | Some f \<Rightarrow>
          if fails env (Remove p) then (Some (OSError p), st)
          else (None, commit ((files st)(p := None)) st))"

text \<open>
  \<open>shutil.copy(src, dst)\<close> for a destination that is no directory: the destination is
  opened for writing, which creates it empty or truncates it, the content is written
  piece by piece, and the permission bits of the source are copied last. Copying a file
  onto itself raises SameFileError, an OSError. A copy that stops leaves the destination
  with the part written so far.
\<close>

definition shutil_copy :: "'e os_env \<Rightarrow> string \<Rightarrow> string \<Rightarrow> 'a os_state_scheme step" where
  "shutil_copy env src dst st =
     (case files st src of
        None \<Rightarrow> (Some (FileNotFoundError src), st)
      | Some f \<Rightarrow>
          if src = dst \<or> fails env (Copy src dst) then (Some (OSError src), st)
          else
            let m = (case files st dst of None \<Rightarrow> create_mode env | Some g \<Rightarrow> perm g);
                n = (case copy_stops env src dst of
                       None \<Rightarrow> length (content f)
                     | Some k \<Rightarrow> min k (length (content f)));
                parts = map (\<lambda>k. (files st)(dst \<mapsto> \<lparr>content = take k (content f), perm = m\<rparr>))
                          [0..<Suc n];
                st' = st\<lparr>files := last parts, seen := seen st @ parts\<rparr>
            in case copy_stops env src dst of
                 Some k \<Rightarrow> (Some (OSError dst), st')
               | None \<Rightarrow> (None, commit ((files st')(dst \<mapsto> f)) st'))"

text \<open>\<open>os.rename(a, b)\<close>: one step that also replaces an existing \<open>b\<close>.\<close>

definition os_rename :: "'e os_env \<Rightarrow> string \<Rightarrow> string \<Rightarrow> 'a os_state_scheme step" where
  "os_rename env a b st =
     (case files st a of
        None \<Rightarrow> (Some (FileNotFoundError a), st)
      | Some f \<Rightarrow>
          if fails env (Rename a b) then (Some (OSError a), st)
          else (None, commit ((files st)(a := None, b \<mapsto> f)) st))"

text \<open>\<open>os.chmod(p, m)\<close>.\<close>

definition os_chmod :: "'e os_env \<Rightarrow> string \<Rightarrow> nat \<Rightarrow> 'a os_state_scheme step" where
  "os_chmod env p m st =
     (case files st p of
        None \<Rightarrow> (Some (FileNotFoundError p), st)
      | Some f \<Rightarrow>
          if fails env (Chmod p m) then (Some (OSError p), st)
          else (None, commit ((files st)(p \<mapsto> f\<lparr>perm := m\<rparr>)) st))"

text \<open>\<open>_safeMove(src, dst, mod)\<close>; the parameter \<open>mod\<close> is \<open>mode\<close> here.\<close>

definition safeMove :: "'e os_env \<Rightarrow> string \<Rightarrow> string \<Rightarrow> nat \<Rightarrow> 'a os_state_scheme step" where
  "safeMove env src dst mode =
     (let tmpFile = dst @ ''.temp''
      in and_then (\<lambda>st. if isfile st tmpFile then os_remove env tmpFile st else pass st)
        (and_then (shutil_copy env src tmpFile)
        (and_then (\<lambda>st. if isfile st dst then os_remove env dst st else pass st)
        (and_then (os_rename env tmpFile dst)
        (and_then (os_chmod env dst mode)
                  (os_remove env src))))))"

section \<open>The conversion pipeline\<close>

text \<open>
  One entry of \<open>bandInfoList\<close>. The docstring lets \<open>outBand\<close> be left out, and it never
  names \<open>description\<close>, so both keys may be missing: the outer \<open>None\<close> of \<open>outBand\<close> and
  the \<open>None\<close> of \<open>description\<close> stand for a missing key, which raises KeyError when it is
  read. \<open>Some None\<close> is the value \<open>None\<close> of \<open>outBand\<close>.
\<close>

record 'e bandInfo =
  inBand :: string
  outBand :: "string option option"
  resampleMethod :: string
  description :: "string option"
  attributes :: "'e py_dict"

text \<open>The dictionary \<open>cogCfgDict\<close>; a missing or \<open>None\<close> overview list is the empty list.\<close>

record 'e cogCfgDict =
  tmpFolder :: string
  outFolder :: string
  inFile :: string
  hasTimeIndex :: bool
  overwriteExistingFiles :: bool
  compressionMethod :: string
  cogOverviews :: "int list"
  blockSize :: int
  attributeConversion :: conversionDict
  bandInfoList :: "'e bandInfo list"

text \<open>The opened NetCDF file: its global attributes and its variables with theirs.\<close>

record 'e ncDataset =
  nc_attrs :: "'e py_dict"
  nc_variables :: "(string \<times> 'e py_dict) list"

text \<open>
  The state of a run of \<open>cogProcessor\<close>: the file system, the external commands executed
  so far, in order, and the list \<open>tempFileList\<close>. Logging is not modelled, nor is the
  creation of the two folders, which are no regular files.
\<close>

record run_state = os_state +
  cmds :: "string list"
  tempFileList :: "string list"

datatype band_outcome = Skipped | Published

text \<open>
  The check of the band list against the variables of the input file, which fills in
  \<open>bandInfo['attributes']\<close> or raises ValueError at the first band that is missing.
\<close>

fun fill_attributes :: "'e ncDataset \<Rightarrow> 'e bandInfo list \<Rightarrow> py_error + 'e bandInfo list" where
  "fill_attributes src [] = Inr []"
| "fill_attributes src (b # bs) =
     (case map_of (nc_variables src) (inBand b) of
        None \<Rightarrow> Inl ValueError
      | Some a \<Rightarrow>
          (case fill_attributes src bs of
             Inl e \<Rightarrow> Inl e
           | Inr bs' \<Rightarrow> Inr (b\<lparr>attributes := a\<rparr> # bs')))"

text \<open>
  \<open>_runShellCmd\<close>: the command runs, and a non-zero exit status raises
  CalledProcessError, which the function raises again after logging.
\<close>

definition runShellCmd :: "'e os_env \<Rightarrow> string \<Rightarrow> run_state step" where
  "runShellCmd env cmd st =
     (let st' = (commit (snd (shell_run env cmd (files st))) st)\<lparr>cmds := cmds st @ [cmd]\<rparr>
      in if fst (shell_run env cmd (files st)) then (None, st')
         else (Some (CalledProcessError cmd), st'))"

text \<open>The names and commands the loop body builds from the configuration and the band.\<close>

definition srcPath_of :: "'e cogCfgDict \<Rightarrow> 'e bandInfo \<Rightarrow> string" where
  "srcPath_of cfg b = ''NETCDF:'' @ [CHR 0x22] @ inFile cfg @ [CHR 0x22] @ '':'' @ inBand b"

definition cogPath_of :: "'e cogCfgDict \<Rightarrow> string \<Rightarrow> string" where
  "cogPath_of cfg cogFile = path_join (outFolder cfg) cogFile"

definition tempBasePath_of :: "'e cogCfgDict \<Rightarrow> string \<Rightarrow> string" where
  "tempBasePath_of cfg cogFile = path_join (tmpFolder cfg) (fst (splitext cogFile))"

definition tiffFile_of :: "'e cogCfgDict \<Rightarrow> string \<Rightarrow> string" where
  "tiffFile_of cfg cogFile = tempBasePath_of cfg cogFile @ ''_base.tiff''"

definition cogTmpFile_of :: "'e cogCfgDict \<Rightarrow> string \<Rightarrow> string" where
  "cogTmpFile_of cfg cogFile = tempBasePath_of cfg cogFile @ ''.tmp.tiff''"

definition translate_cmd :: "'e cogCfgDict \<Rightarrow> 'e bandInfo \<Rightarrow> string \<Rightarrow> string" where
  "translate_cmd cfg b cogFile =
     ''gdal_translate -of GTIFF '' @ srcPath_of cfg b @ '' '' @ tiffFile_of cfg cogFile"

definition clean_cmd :: "'e cogCfgDict \<Rightarrow> string \<Rightarrow> string" where
  "clean_cmd cfg cogFile = ''gdaladdo -clean  '' @ tiffFile_of cfg cogFile"

definition overview_cmd :: "'e cogCfgDict \<Rightarrow> 'e bandInfo \<Rightarrow> string \<Rightarrow> string" where
  "overview_cmd cfg b cogFile =
     ''gdaladdo -ro --config GDAL_TIFF_OVR_BLOCKSIZE '' @ str_int (blockSize cfg)
     @ '' --config COMPRESS_OVERVIEW '' @ compressionMethod cfg
     @ '' -r '' @ resampleMethod b @ '' '' @ tiffFile_of cfg cogFile
     @ '' '' @ join '' '' (map str_int (cogOverviews cfg))"

definition cog_cmd :: "'e cogCfgDict \<Rightarrow> string \<Rightarrow> string" where
  "cog_cmd cfg cogFile =
     ''gdal_translate -of COG '' @ ''-co COMPRESS='' @ compressionMethod cfg @ '' ''
     @ ''-co PREDICTOR=YES '' @ ''--config GDAL_TIFF_OVR_BLOCKSIZE '' @ str_int (blockSize cfg)
     @ '' '' @ tiffFile_of cfg cogFile @ '' '' @ cogTmpFile_of cfg cogFile"

text \<open>
  The metadata step: both attribute mappings are translated, the base image is opened
  for update, which raises RuntimeError when GDAL cannot open it, and the metadata and
  the description are set. A missing \<open>description\<close> raises KeyError after the metadata
  is set.
\<close>

definition setMetadata ::
  "'e os_env \<Rightarrow> 'e py_runtime \<Rightarrow> 'e cogCfgDict \<Rightarrow> 'e py_dict \<Rightarrow> 'e bandInfo \<Rightarrow> string
     \<Rightarrow> run_state step" where
  "setMetadata env rt cfg attributeDict b cogFile st =
     (case convertFileAttributes rt attributeDict (attributeConversion cfg) cogFile of
        Inl e \<Rightarrow> (Some e, st)
      | Inr metadataDict \<Rightarrow>
          (case convertBandAttributes rt (attributes b) (attributeConversion cfg) of
             Inl e \<Rightarrow> (Some e, st)
           | Inr bandMetadataDict \<Rightarrow>
               if \<not> gdal_open env (tiffFile_of cfg cogFile) (files st)
               then (Some RuntimeError, st)
               else
                 let st' = commit (gdal_write env (tiffFile_of cfg cogFile) metadataDict
                                     bandMetadataDict (description b) (files st)) st
                 in (case description b of
                       None \<Rightarrow> (Some (KeyError ''description''), st')
                     | Some d \<Rightarrow> (None, st'))))"

text \<open>
  The loop body after the skip check, from \<open>tempFileList.append(tiffFile)\<close> to
  \<open>_safeMove(cogTmpFile, cogPath)\<close>, whose mode is the default \<open>0o644\<close>.
\<close>

definition convertBand ::
  "'e os_env \<Rightarrow> 'e py_runtime \<Rightarrow> 'e cogCfgDict \<Rightarrow> 'e py_dict \<Rightarrow> 'e bandInfo \<Rightarrow> string
     \<Rightarrow> run_state step" where
  "convertBand env rt cfg attributeDict b cogFile =
     and_then (\<lambda>st. (None, st\<lparr>tempFileList := tempFileList st @ [tiffFile_of cfg cogFile]\<rparr>))
    (and_then (runShellCmd env (translate_cmd cfg b cogFile))
    (and_then (if cogOverviews cfg \<noteq> []
               then and_then (runShellCmd env (clean_cmd cfg cogFile))
                   (and_then (runShellCmd env (overview_cmd cfg b cogFile))
                      (\<lambda>st. (None, st\<lparr>tempFileList :=
                                 tempFileList st @ [tiffFile_of cfg cogFile @ ''.ovr'']\<rparr>)))
               else pass)
    (and_then (setMetadata env rt cfg attributeDict b cogFile)
    (and_then (runShellCmd env (cog_cmd cfg cogFile))
              (safeMove env (cogTmpFile_of cfg cogFile) (cogPath_of cfg cogFile) 420)))))"

text \<open>
  One pass of the loop body: the output name, the skip check, the conversion. The result
  is the exception, or how the band ended.
\<close>

definition processBand ::
  "'e os_env \<Rightarrow> 'e py_runtime \<Rightarrow> 'e cogCfgDict \<Rightarrow> 'e py_dict \<Rightarrow> 'e bandInfo \<Rightarrow> run_state
     \<Rightarrow> (py_error + band_outcome) \<times> run_state" where
  "processBand env rt cfg attributeDict b st =
     (case outBand b of
        None \<Rightarrow> (Inl (KeyError ''outBand''), st)
      | Some ob \<Rightarrow>
          (case createCogFileName (basename (inFile cfg)) (inBand b) ob (hasTimeIndex cfg) of
             Inl e \<Rightarrow> (Inl e, st)
           | Inr cogFile \<Rightarrow>
               if \<not> overwriteExistingFiles cfg \<and> isfile st (cogPath_of cfg cogFile)
               then (Inr Skipped, st)
               else (case convertBand env rt cfg attributeDict b cogFile st of
                       (Some e, st') \<Rightarrow> (Inl e, st')
                     | (None, st') \<Rightarrow> (Inr Published, st'))))"

text \<open>
  The loop over the bands, in the order of the list. Nothing catches an exception of the
  body: it ends the loop, and the result holds how the bands before it ended.
\<close>

fun processBands ::
  "'e os_env \<Rightarrow> 'e py_runtime \<Rightarrow> 'e cogCfgDict \<Rightarrow> 'e py_dict \<Rightarrow> 'e bandInfo list \<Rightarrow> run_state
     \<Rightarrow> (band_outcome list \<times> py_error option) \<times> run_state" where
  "processBands env rt cfg attributeDict [] st = (([], None), st)"
| "processBands env rt cfg attributeDict (b # bs) st =
     (case processBand env rt cfg attributeDict b st of
        (Inl e, st') \<Rightarrow> (([], Some e), st')
      | (Inr out, st') \<Rightarrow>
          (case processBands env rt cfg attributeDict bs st' of
             ((outs, r), st'') \<Rightarrow> ((out # outs, r), st'')))"

text \<open>The loop that removes the files of \<open>tempFileList\<close>.\<close>

fun removeTempFiles :: "'e os_env \<Rightarrow> string list \<Rightarrow> run_state step" where
  "removeTempFiles env [] = pass"
| "removeTempFiles env (p # ps) = and_then (os_remove env p) (removeTempFiles env ps)"

text \<open>
  \<open>cogProcessor\<close>, from the reading of the attributes to the removal of the temporary
  files. The result is how the bands ended, and the exception that ended the run, if any.
\<close>

definition cogProcessor ::
  "'e os_env \<Rightarrow> 'e py_runtime \<Rightarrow> 'e cogCfgDict \<Rightarrow> 'e ncDataset \<Rightarrow> run_state
     \<Rightarrow> (band_outcome list \<times> py_error option) \<times> run_state" where
  "cogProcessor env rt cfg src st =
     (case fill_attributes src (bandInfoList cfg) of
        Inl e \<Rightarrow> (([], Some e), st)
      | Inr bands \<Rightarrow>
          (case processBands env rt cfg (nc_attrs src) bands (st\<lparr>tempFileList := []\<rparr>) of
             ((outs, Some e), st') \<Rightarrow> ((outs, Some e), st')
           | ((outs, None), st') \<Rightarrow>
               (case removeTempFiles env (tempFileList st') st' of
                  (r, st'') \<Rightarrow> ((outs, r), st''))))"

section \<open>Names for the statements about the pipeline\<close>

text \<open>
  The output file name of a band, as the loop body computes it; \<open>None\<close> when reading
  \<open>outBand\<close> or building the name raises.
\<close>

definition band_cogFile :: "'e cogCfgDict \<Rightarrow> 'e bandInfo \<Rightarrow> string option" where
  "band_cogFile cfg b =
     (case outBand b of
        None \<Rightarrow> None
      | Some ob \<Rightarrow>
          (case createCogFileName (basename (inFile cfg)) (inBand b) ob (hasTimeIndex cfg) of
             Inl e \<Rightarrow> None
           | Inr cogFile \<Rightarrow> Some cogFile))"

text \<open>
  The paths the loop body adds to \<open>tempFileList\<close> for a band: the base image and, with
  overviews configured, the overview file.
\<close>

definition band_temp_files :: "'e cogCfgDict \<Rightarrow> string \<Rightarrow> string list" where
  "band_temp_files cfg cogFile =
     tiffFile_of cfg cogFile #
     (if cogOverviews cfg \<noteq> [] then [tiffFile_of cfg cogFile @ ''.ovr''] else [])"




text \<open>A step that leaves the file at a path as it is.\<close>

definition keeps :: "string \<Rightarrow> run_state step \<Rightarrow> bool" where
  "keeps p f = (\<forall>st. files (snd (f st)) p = files st p)"

text \<open>
  What an observer of \<open>dst\<close> may find while \<open>_safeMove\<close> runs from the file system
  \<open>fs\<close>: the file that was there before, no file, or the whole source file, with the
  permission bits of the source or with the requested ones.
\<close>

definition dst_ok :: "filesystem \<Rightarrow> string \<Rightarrow> string \<Rightarrow> nat \<Rightarrow> file_node option \<Rightarrow> bool" where
  "dst_ok fs src dst mode v =
     (v = fs dst \<or> v = None \<or>
      (\<exists>g. fs src = Some g \<and> (v = Some g \<or> v = Some (g\<lparr>perm := mode\<rparr>))))"

section \<open>Example inputs\<close>

text \<open>
  An environment in which no call fails and the external programs do nothing, the same
  environment with a failing rename onto \<open>o/x.tiff\<close>, and a state with a finished
  temporary file and an older output file.
\<close>

definition quiet_env :: "int os_env" where
  "quiet_env =
     \<lparr>fails = (\<lambda>c. False), copy_stops = (\<lambda>a b. None), create_mode = 420,
      shell_run = (\<lambda>cmd fs. (True, fs)), gdal_open = (\<lambda>p fs. True),
      gdal_write = (\<lambda>p m b d fs. fs)\<rparr>"

definition rename_fails_env :: "int os_env" where
  "rename_fails_env = quiet_env\<lparr>fails := (\<lambda>c. c = Rename ''o/x.tiff.temp'' ''o/x.tiff'')\<rparr>"

definition two_files :: os_state where
  "two_files =
     \<lparr>files = [''t/x.tmp.tiff'' \<mapsto> \<lparr>content = ''new'', perm = 384\<rparr>,
               ''o/x.tiff'' \<mapsto> \<lparr>content = ''old'', perm = 420\<rparr>],
      seen = []\<rparr>"

text \<open>
  A job for the input file \<open>in/c_gls_N_D_R_S_V.nc\<close> with the bands \<open>A\<close> and \<open>B\<close>, without
  overviews, and the same job for band \<open>A\<close> alone with overviews. Three tool chains: in
  the first only the extraction of band \<open>A\<close> fails; the second converts band \<open>A\<close> and fails
  on every other command; the third always succeeds and writes the temporary files of
  band \<open>A\<close>.
\<close>

definition band_A :: "int bandInfo" where
  "band_A = \<lparr>inBand = ''A'', outBand = Some None, resampleMethod = ''near'',
             description = Some ''a'', attributes = []\<rparr>"

definition band_B :: "int bandInfo" where
  "band_B = \<lparr>inBand = ''B'', outBand = Some None, resampleMethod = ''near'',
             description = Some ''b'', attributes = []\<rparr>"

definition two_band_cfg :: "int cogCfgDict" where
  "two_band_cfg =
     \<lparr>tmpFolder = ''t'', outFolder = ''o'', inFile = ''in/c_gls_N_D_R_S_V.nc'',
      hasTimeIndex = False, overwriteExistingFiles = False, compressionMethod = ''LZW'',
      cogOverviews = [], blockSize = 512,
      attributeConversion =
        \<lparr>history = [], listEnclosure = ''{}'', listSeparator = '','', removeAttributeLst = []\<rparr>,
      bandInfoList = [band_A, band_B]\<rparr>"

definition one_band_cfg :: "int cogCfgDict" where
  "one_band_cfg = two_band_cfg\<lparr>cogOverviews := [2, 4], bandInfoList := [band_A]\<rparr>"

definition nc_AB :: "int ncDataset" where
  "nc_AB = \<lparr>nc_attrs = [], nc_variables = [(''A'', []), (''B'', [])]\<rparr>"

definition rt_int :: "int py_runtime" where
  "rt_int = \<lparr>str_elem = str_int, format_other = (\<lambda>v. []), today = ''2024-09-04''\<rparr>"

definition empty_state :: run_state where
  "empty_state = \<lparr>files = Map.empty, seen = [], cmds = [], tempFileList = []\<rparr>"

definition raster :: file_node where
  "raster = \<lparr>content = ''r'', perm = 384\<rparr>"


definition b_fails_env :: "int os_env" where
  "b_fails_env = quiet_env\<lparr>shell_run :=
     (\<lambda>cmd fs. if cmd = translate_cmd two_band_cfg band_A ''c_gls_N-A_D_R_S_V.tiff''
                   \<or> cmd = cog_cmd two_band_cfg ''c_gls_N-A_D_R_S_V.tiff''
                then (True, fs(''t/c_gls_N-A_D_R_S_V_base.tiff'' \<mapsto> raster,
                               ''t/c_gls_N-A_D_R_S_V.tmp.tiff'' \<mapsto> raster))
                else (False, fs))\<rparr>"

definition working_env :: "int os_env" where
  "working_env = quiet_env\<lparr>shell_run :=
     (\<lambda>cmd fs. (True, fs(''t/c_gls_N-A_D_R_S_V_base.tiff'' \<mapsto> raster,
                         ''t/c_gls_N-A_D_R_S_V_base.tiff.ovr'' \<mapsto> raster,
                         ''t/c_gls_N-A_D_R_S_V.tmp.tiff'' \<mapsto> raster)))\<rparr>"

section \<open>Properties of the string functions\<close>

lemma split_not_Nil: "split c s \<noteq> []"
  by (induction s) (auto split: list.splits)

lemma join_split: "join [c] (split c s) = s"
proof (induction s)
  case Nil
  show ?case by simp
next
  case (Cons x xs)
  obtain w ws where sp: "split c xs = w # ws"
    using split_not_Nil [of c xs] by (cases "split c xs") auto
  show ?case
  proof (cases "x = c")
    case True
    with Cons sp show ?thesis by simp
  next
    case False
    with Cons sp show ?thesis by (cases ws) auto
  qed
qed

lemma splitext_append: "fst (splitext p) @ snd (splitext p) = p"
  by (simp add: splitext_def Let_def)

lemma length7E:
  assumes "length xs = 7"
  obtains a b c d e f g where "xs = [a, b, c, d, e, f, g]"
  using assms by (auto simp: length_Suc_conv eval_nat_numeral)

section \<open>Parsing a product name\<close>

text \<open>
  Claim C4, as the code has it. \<open>_unpackNetCDFProductName\<close> raises (IndexError or
  ValueError, the spec's NameGrammarError) exactly when the stem, split at underscores, has
  fewer than seven segments, or the hyphen parts of the third segment and \<open>timeIndexed\<close>
  are outside the table of the spec. Whenever the stem has at least seven segments and the
  table gives a pair, the parser returns elements whose \<open>subProduct\<close> and \<open>timeIndex\<close> are
  that pair and whose \<open>product\<close> is the first hyphen part. Segments after the seventh are
  ignored: they are no error.
\<close>

theorem unpack_fails_exactly:
  "((\<exists>e. unpackNetCDFProductName productname timeIndexed = Inl e) \<longleftrightarrow>
      (length (split CHR ''_'' (fst (splitext productname))) < 7 \<or>
       spec_table (split CHR ''-'' (split CHR ''_'' (fst (splitext productname)) ! 2)) timeIndexed
         = None)) \<and>
   (\<forall>sp ti. 7 \<le> length (split CHR ''_'' (fst (splitext productname))) \<and>
       spec_table (split CHR ''-'' (split CHR ''_'' (fst (splitext productname)) ! 2)) timeIndexed
         = Some (sp, ti) \<longrightarrow>
       (\<exists>r. unpackNetCDFProductName productname timeIndexed = Inr r \<and>
            subProduct r = sp \<and> timeIndex r = ti \<and>
            product r = split CHR ''-'' (split CHR ''_'' (fst (splitext productname)) ! 2) ! 0))"
  by (auto simp: unpackNetCDFProductName_def spec_table_def Let_def split: if_splits)

text \<open>
  The theorem at a name with a sub-product and a time index: parsed with
  \<open>timeIndexed\<close>, refused without it (three hyphen parts), and a name of six segments is
  refused.
\<close>

theorem unpack_fails_exactly_witness:
  "unpackNetCDFProductName ''c_gls_FAPAR300-SUB-RT0_202404100000_GLOBE_OLCI_V1.1.2.nc'' True =
     Inr \<lparr>project = ''c_gls'', product = ''FAPAR300'', productDate = ''202404100000'',
          roi = ''GLOBE'', sensor = ''OLCI'', version = ''V1.1.2'', extention = ''.nc'',
          subProduct = Some ''SUB'', timeIndex = Some ''RT0'', parameter = None\<rparr> \<and>
   unpackNetCDFProductName ''c_gls_FAPAR300-SUB-RT0_202404100000_GLOBE_OLCI_V1.1.2.nc'' False =
     Inl ValueError \<and>
   unpackNetCDFProductName ''c_gls_FAPAR300_202404100000_GLOBE_OLCI.nc'' False = Inl IndexError"
  using unpack_fails_exactly [of "''c_gls_FAPAR300-SUB-RT0_202404100000_GLOBE_OLCI_V1.1.2.nc''" True]
  by (simp add: unpackNetCDFProductName_def splitext_def rfind_def slice_def Let_def)

text \<open>
  Claim C4 as the spec states it fails: a stem of eight segments does not have exactly
  seven, and it is parsed; the eighth segment is dropped.
\<close>

theorem unpack_eight_segments_counterexample:
  "length (split CHR ''_'' (fst (splitext ''a_b_c_d_e_f_g_h.nc''))) = 8 \<and>
   unpackNetCDFProductName ''a_b_c_d_e_f_g_h.nc'' False =
     Inr \<lparr>project = ''a_b'', product = ''c'', productDate = ''d'', roi = ''e'',
          sensor = ''f'', version = ''g'', extention = ''.nc'',
          subProduct = None, timeIndex = None, parameter = None\<rparr>"
  by (simp add: unpackNetCDFProductName_def splitext_def rfind_def slice_def Let_def)

section \<open>Packing the output name\<close>

text \<open>
  Claim C6. With the parameter set to \<open>p\<close>, \<open>_packCOGProductName\<close> returns
  \<open>project_product[-subProduct]-p[-timeIndex]_productDate_roi_sensor_version.tiff\<close>.
  A bracketed part is written only when its element is present: it is left out when the
  element is \<open>None\<close>, and also when it is the empty string, which Python's \<open>if\<close> takes
  for false. The source extension plays no part, and every name that
  \<open>createCogFileName\<close> returns ends in \<open>.tiff\<close>. The two examples of the spec hold.
\<close>

theorem pack_format:
  "packCOGProductName (e\<lparr>parameter := Some p\<rparr>) =
     Inr (project e @ ''_'' @ product e
          @ (case subProduct e of None \<Rightarrow> [] | Some s \<Rightarrow> if s = [] then [] else ''-'' @ s)
          @ ''-'' @ p
          @ (case timeIndex e of None \<Rightarrow> [] | Some t \<Rightarrow> if t = [] then [] else ''-'' @ t)
          @ ''_'' @ productDate e @ ''_'' @ roi e @ ''_'' @ sensor e @ ''_'' @ version e
          @ ''.tiff'') \<and>
   packCOGProductName (e\<lparr>extention := x\<rparr>) = packCOGProductName e \<and>
   (\<forall>out. createCogFileName fileName band outName timeIndexed = Inr out \<longrightarrow>
      5 \<le> length out \<and> drop (length out - 5) out = ''.tiff'') \<and>
   createCogFileName ''c_gls_NDVI300_202404010000_GLOBE_OLCI_V2.0.1.nc'' ''NDVI'' None False =
     Inr ''c_gls_NDVI300-NDVI_202404010000_GLOBE_OLCI_V2.0.1.tiff'' \<and>
   createCogFileName ''c_gls_FAPAR300-RT0_202404100000_GLOBE_OLCI_V1.1.2.nc'' ''FAPAR''
       (Some ''FAPAR'') True =
     Inr ''c_gls_FAPAR300-FAPAR-RT0_202404100000_GLOBE_OLCI_V1.1.2.tiff''"
proof -
  have fmt: "packCOGProductName (e\<lparr>parameter := Some p\<rparr>) =
     Inr (project e @ ''_'' @ product e
          @ (case subProduct e of None \<Rightarrow> [] | Some s \<Rightarrow> if s = [] then [] else ''-'' @ s)
          @ ''-'' @ p
          @ (case timeIndex e of None \<Rightarrow> [] | Some t \<Rightarrow> if t = [] then [] else ''-'' @ t)
          @ ''_'' @ productDate e @ ''_'' @ roi e @ ''_'' @ sensor e @ ''_'' @ version e
          @ ''.tiff'')" for e p
    by (simp add: packCOGProductName_def Let_def split: option.splits)
  have ext: "packCOGProductName (e\<lparr>extention := x\<rparr>) = packCOGProductName e"
    by (simp add: packCOGProductName_def Let_def split: option.splits)
  have suffix: "5 \<le> length out \<and> drop (length out - 5) out = ''.tiff''"
    if "createCogFileName fileName band outName timeIndexed = Inr out" for out
  proof -
    from that obtain r q where "packCOGProductName (r\<lparr>parameter := Some q\<rparr>) = Inr out"
      by (auto simp: createCogFileName_def split: sum.splits if_splits)
    then obtain stem where "out = stem @ ''.tiff''"
      unfolding fmt by auto
    then show ?thesis by simp
  qed
  have ex1: "createCogFileName ''c_gls_NDVI300_202404010000_GLOBE_OLCI_V2.0.1.nc'' ''NDVI'' None False =
     Inr ''c_gls_NDVI300-NDVI_202404010000_GLOBE_OLCI_V2.0.1.tiff''"
    by (simp add: createCogFileName_def unpackNetCDFProductName_def packCOGProductName_def
        splitext_def rfind_def slice_def Let_def)
  have ex2: "createCogFileName ''c_gls_FAPAR300-RT0_202404100000_GLOBE_OLCI_V1.1.2.nc'' ''FAPAR''
       (Some ''FAPAR'') True =
     Inr ''c_gls_FAPAR300-FAPAR-RT0_202404100000_GLOBE_OLCI_V1.1.2.tiff''"
    by (simp add: createCogFileName_def unpackNetCDFProductName_def packCOGProductName_def
        splitext_def rfind_def slice_def Let_def)
  from fmt ext suffix ex1 ex2 show ?thesis by blast
qed

text \<open>The format at elements with a sub-product and no time index.\<close>

theorem pack_format_witness:
  "packCOGProductName
     \<lparr>project = ''c_gls'', product = ''FAPAR300'', productDate = ''202404100000'',
      roi = ''GLOBE'', sensor = ''OLCI'', version = ''V1.1.2'', extention = ''.nc'',
      subProduct = Some ''SUB'', timeIndex = None, parameter = Some ''FAPAR''\<rparr> =
   Inr ''c_gls_FAPAR300-SUB-FAPAR_202404100000_GLOBE_OLCI_V1.1.2.tiff''"
  using pack_format [where e =
     "\<lparr>project = ''c_gls'', product = ''FAPAR300'', productDate = ''202404100000'',
      roi = ''GLOBE'', sensor = ''OLCI'', version = ''V1.1.2'', extention = ''.nc'',
      subProduct = Some ''SUB'', timeIndex = None, parameter = None\<rparr>" and p = "''FAPAR''"]
  by simp

section \<open>Parse, then Pack\<close>

text \<open>
  Claim C7, as the code has it. For a name whose stem has exactly seven underscore
  segments, whose third segment has hyphen parts that the table accepts, and whose hyphen
  parts after the first are not empty, \<open>createCogFileName\<close> with no output band gives
  the source name with the band name put into the product tag and the extension replaced
  by \<open>.tiff\<close>.
\<close>

theorem roundtrip_nonempty_parts:
  assumes seven: "length (split CHR ''_'' (fst (splitext productname))) = 7"
      and tab: "spec_table (split CHR ''-'' (split CHR ''_'' (fst (splitext productname)) ! 2))
                  timeIndexed \<noteq> None"
      and nonempty: "[] \<notin> set (tl (split CHR ''-'' (split CHR ''_'' (fst (splitext productname)) ! 2)))"
      and orig: "\<not> truthy outName"
  shows "createCogFileName productname band outName timeIndexed =
           Inr (spec_roundtrip_name productname band timeIndexed)"
proof -
  from seven obtain a b c d e f g
    where parts: "split CHR ''_'' (fst (splitext productname)) = [a, b, c, d, e, f, g]"
    by (rule length7E)
  from tab parts have "length (split CHR ''-'' c) = 1 \<or> length (split CHR ''-'' c) = 2
      \<or> length (split CHR ''-'' c) = 3"
    by (auto simp: spec_table_def split: if_splits)
  then consider p0 where "split CHR ''-'' c = [p0]"
    | p0 p1 where "split CHR ''-'' c = [p0, p1]"
    | p0 p1 p2 where "split CHR ''-'' c = [p0, p1, p2]"
    by (auto simp: length_Suc_conv eval_nat_numeral)
  then show ?thesis
  proof cases
    case 1
    with parts tab orig show ?thesis
      by (auto simp: createCogFileName_def unpackNetCDFProductName_def packCOGProductName_def
          spec_roundtrip_name_def spec_table_def Let_def split: if_splits)
  next
    case 2
    with parts tab orig nonempty show ?thesis
      by (auto simp: createCogFileName_def unpackNetCDFProductName_def packCOGProductName_def
          spec_roundtrip_name_def spec_table_def Let_def split: if_splits)
  next
    case 3
    with parts tab orig nonempty show ?thesis
      by (auto simp: createCogFileName_def unpackNetCDFProductName_def packCOGProductName_def
          spec_roundtrip_name_def spec_table_def Let_def split: if_splits)
  qed
qed

text \<open>The round trip at a name with a sub-product and a time index.\<close>

theorem roundtrip_nonempty_parts_witness:
  "createCogFileName ''c_gls_FAPAR300-SUB-RT0_202404100000_GLOBE_OLCI_V1.1.2.nc'' ''FAPAR'' None True =
     Inr ''c_gls_FAPAR300-SUB-FAPAR-RT0_202404100000_GLOBE_OLCI_V1.1.2.tiff''"
proof -
  have stem: "split CHR ''_'' (fst (splitext ''c_gls_FAPAR300-SUB-RT0_202404100000_GLOBE_OLCI_V1.1.2.nc''))
     = [''c'', ''gls'', ''FAPAR300-SUB-RT0'', ''202404100000'', ''GLOBE'', ''OLCI'', ''V1.1.2'']"
    by (simp add: splitext_def rfind_def slice_def Let_def)
  have tag: "split CHR ''-'' ''FAPAR300-SUB-RT0'' = [''FAPAR300'', ''SUB'', ''RT0'']"
    by simp
  have "createCogFileName ''c_gls_FAPAR300-SUB-RT0_202404100000_GLOBE_OLCI_V1.1.2.nc'' ''FAPAR'' None True =
     Inr (spec_roundtrip_name ''c_gls_FAPAR300-SUB-RT0_202404100000_GLOBE_OLCI_V1.1.2.nc'' ''FAPAR'' True)"
    by (rule roundtrip_nonempty_parts) (simp_all add: stem tag spec_table_def)
  then show ?thesis
    by (simp add: spec_roundtrip_name_def stem tag)
qed

text \<open>
  Claim C7 as the spec states it fails: the name \<open>a_b_c-_d_e_f_g.nc\<close> has seven segments
  and two hyphen parts, which the table accepts without a time index. Its sub-product is
  the empty string, which Pack leaves out with its hyphen, so the result is not the source
  name with the band name put in.
\<close>

theorem roundtrip_empty_subproduct_counterexample:
  "length (split CHR ''_'' (fst (splitext ''a_b_c-_d_e_f_g.nc''))) = 7 \<and>
   split CHR ''-'' (split CHR ''_'' (fst (splitext ''a_b_c-_d_e_f_g.nc'')) ! 2) = [''c'', ''''] \<and>
   unpackNetCDFProductName ''a_b_c-_d_e_f_g.nc'' False =
     Inr \<lparr>project = ''a_b'', product = ''c'', productDate = ''d'', roi = ''e'',
          sensor = ''f'', version = ''g'', extention = ''.nc'',
          subProduct = Some '''', timeIndex = None, parameter = None\<rparr> \<and>
   createCogFileName ''a_b_c-_d_e_f_g.nc'' ''B'' None False = Inr ''a_b_c-B_d_e_f_g.tiff'' \<and>
   spec_roundtrip_name ''a_b_c-_d_e_f_g.nc'' ''B'' False = ''a_b_c--B_d_e_f_g.tiff''"
  by (simp add: createCogFileName_def unpackNetCDFProductName_def packCOGProductName_def
      spec_roundtrip_name_def splitext_def rfind_def slice_def Let_def)

section \<open>Band attributes\<close>

lemma update_fresh: "k \<notin> fst ` set al \<Longrightarrow> AList.update k v al = al @ [(k, v)]"
  by (induction al) auto

lemma fst_band_entry [simp]: "fst (band_entry rt conv kv) = fst kv"
  by (simp add: band_entry_def split: py_value.splits)

lemma band_entry_other: "\<not> is_ndarray (snd kv) \<Longrightarrow> band_entry rt conv kv = kv"
  by (cases "snd kv") (simp_all add: band_entry_def)

lemma kept_pair [simp]: "kept conv (k, v) = (k \<notin> set (removeAttributeLst conv))"
  by (simp add: kept_def)

lemma band_items_result:
  assumes "distinct (map fst items)" "fst ` set items \<inter> fst ` set metadata = {}"
  shows "convertBandAttributes_items rt conv items metadata =
     (if length (listEnclosure conv) = 2 \<or> listEnclosure conv = []
         \<or> \<not> (\<exists>kv \<in> set items. kept conv kv \<and> is_ndarray (snd kv))
      then Inr (metadata @ map (band_entry rt conv) (filter (kept conv) items))
      else Inl ValueError)"
  using assms
proof (induction items arbitrary: metadata)
  case Nil
  show ?case by simp
next
  case (Cons a items)
  obtain key v where a: "a = (key, v)" by (cases a)
  show ?case
  proof (cases "key \<in> set (removeAttributeLst conv)")
    case True
    with Cons a show ?thesis by auto
  next
    case False
    from Cons.prems a have fresh: "key \<notin> fst ` set metadata" by auto
    have disj: "fst ` set items \<inter> fst ` set (metadata @ [(key, w)]) = {}" for w
      using Cons.prems a by auto
    have dist: "distinct (map fst items)" using Cons.prems by simp
    note IH = Cons.IH [OF dist disj]
    show ?thesis
    proof (cases v)
      case (NdArray xs)
      have enc2: "[listEnclosure conv ! 0] = take 1 (listEnclosure conv) \<and>
                  [listEnclosure conv ! 1] = drop 1 (listEnclosure conv)"
        if "length (listEnclosure conv) = 2"
      proof -
        from that obtain x y where "listEnclosure conv = [x, y]"
          by (auto simp: length_Suc_conv eval_nat_numeral)
        then show ?thesis by simp
      qed
      show ?thesis
        using False a NdArray fresh IH enc2
        by (auto simp: update_fresh band_entry_def Let_def)
    next
      case (PyStr s)
      with False a fresh IH show ?thesis
        by (auto simp: update_fresh band_entry_def)
    next
      case (PyNum n)
      with False a fresh IH show ?thesis
        by (auto simp: update_fresh band_entry_def)
    next
      case (PyList xs)
      with False a fresh IH show ?thesis
        by (auto simp: update_fresh band_entry_def)
    qed
  qed
qed

lemma band_result:
  assumes "distinct (map fst attributeDict)"
  shows "convertBandAttributes rt attributeDict conv =
     (if length (listEnclosure conv) = 2 \<or> listEnclosure conv = []
         \<or> \<not> (\<exists>kv \<in> set attributeDict. kept conv kv \<and> is_ndarray (snd kv))
      then Inr (map (band_entry rt conv) (filter (kept conv) attributeDict))
      else Inl ValueError)"
  unfolding convertBandAttributes_def
  using band_items_result [OF assms, of "[]" rt conv] by simp

lemma str_int_small:
  "str_int 1 = ''1''" "str_int 2 = ''2''" "str_int 3 = ''3''"
  by (simp_all add: str_int_def str_nat.simps digit_char_def)

text \<open>
  Claim C8, as the code has it. The attribute mapping is a Python dictionary, so its keys
  are distinct. The only values \<open>_convertBandAttributes\<close> serialises are those of type
  \<open>numpy.ndarray\<close>. With an enclosure of two characters, or an empty one, it returns the
  kept entries in order, every array joined with the separator and wrapped in the two
  characters (or left bare), every other value as it is; a plain Python list of numbers
  is such a value and is not serialised. With an enclosure of any other length and an
  array among the kept entries it raises ValueError, the spec's ConfigurationError. Away
  from plain lists the stored entry is the one the spec describes. The array \<open>[1,2,3]\<close>
  with separator \<open>,\<close> gives \<open>{1,2,3}\<close> inside \<open>{}\<close>, \<open>1,2,3\<close> with the empty enclosure, and
  ValueError with an enclosure of three characters.
\<close>

theorem band_sequences_serialised:
  assumes "distinct (map fst attributeDict)"
  shows
  "(length (listEnclosure conv) = 2 \<or> listEnclosure conv = [] \<longrightarrow>
      convertBandAttributes rt attributeDict conv =
        Inr (map (band_entry rt conv) (filter (kept conv) attributeDict))) \<and>
   (length (listEnclosure conv) \<noteq> 2 \<and> listEnclosure conv \<noteq> [] \<and>
    (\<exists>kv \<in> set attributeDict. kept conv kv \<and> is_ndarray (snd kv)) \<longrightarrow>
      convertBandAttributes rt attributeDict conv = Inl ValueError) \<and>
   band_entry rt conv (k, NdArray xs) =
     (k, PyStr (take 1 (listEnclosure conv) @ join (listSeparator conv) (map (str_elem rt) xs)
                @ drop 1 (listEnclosure conv))) \<and>
   band_entry rt conv (k, PyList xs) = (k, PyList xs) \<and>
   band_entry rt conv (k, PyStr s) = (k, PyStr s) \<and>
   band_entry rt conv (k, PyNum n) = (k, PyNum n) \<and>
   (\<forall>kv. (\<forall>ys. snd kv \<noteq> PyList ys) \<longrightarrow> band_entry rt conv kv = spec_band_entry rt conv kv) \<and>
   convertBandAttributes (rt\<lparr>str_elem := str_int\<rparr>) [(k, NdArray [1, 2, 3])]
      \<lparr>history = h, listEnclosure = ''{}'', listSeparator = '','', removeAttributeLst = []\<rparr>
     = Inr [(k, PyStr ''{1,2,3}'')] \<and>
   convertBandAttributes (rt\<lparr>str_elem := str_int\<rparr>) [(k, NdArray [1, 2, 3])]
      \<lparr>history = h, listEnclosure = [], listSeparator = '','', removeAttributeLst = []\<rparr>
     = Inr [(k, PyStr ''1,2,3'')] \<and>
   convertBandAttributes (rt\<lparr>str_elem := str_int\<rparr>) [(k, NdArray [1, 2, 3])]
      \<lparr>history = h, listEnclosure = ''{|}'', listSeparator = '','', removeAttributeLst = []\<rparr>
     = Inl ValueError"
proof -
  have general: "convertBandAttributes rt attributeDict conv =
     (if length (listEnclosure conv) = 2 \<or> listEnclosure conv = []
         \<or> \<not> (\<exists>kv \<in> set attributeDict. kept conv kv \<and> is_ndarray (snd kv))
      then Inr (map (band_entry rt conv) (filter (kept conv) attributeDict))
      else Inl ValueError)"
    using assms by (rule band_result)
  have entries:
    "band_entry rt conv (k, NdArray xs) =
     (k, PyStr (take 1 (listEnclosure conv) @ join (listSeparator conv) (map (str_elem rt) xs)
                @ drop 1 (listEnclosure conv)))"
    "band_entry rt conv (k, PyList xs) = (k, PyList xs)"
    "band_entry rt conv (k, PyStr s) = (k, PyStr s)"
    "band_entry rt conv (k, PyNum n) = (k, PyNum n)"
    by (simp_all add: band_entry_def)
  have agree: "band_entry rt conv kv = spec_band_entry rt conv kv"
    if "\<forall>ys. snd kv \<noteq> PyList ys" for kv
    using that by (cases "snd kv") (simp_all add: band_entry_def spec_band_entry_def)
  have examples:
    "convertBandAttributes (rt\<lparr>str_elem := str_int\<rparr>) [(k, NdArray [1, 2, 3])]
      \<lparr>history = h, listEnclosure = ''{}'', listSeparator = '','', removeAttributeLst = []\<rparr>
     = Inr [(k, PyStr ''{1,2,3}'')]"
    "convertBandAttributes (rt\<lparr>str_elem := str_int\<rparr>) [(k, NdArray [1, 2, 3])]
      \<lparr>history = h, listEnclosure = [], listSeparator = '','', removeAttributeLst = []\<rparr>
     = Inr [(k, PyStr ''1,2,3'')]"
    "convertBandAttributes (rt\<lparr>str_elem := str_int\<rparr>) [(k, NdArray [1, 2, 3])]
      \<lparr>history = h, listEnclosure = ''{|}'', listSeparator = '','', removeAttributeLst = []\<rparr>
     = Inl ValueError"
    by (simp_all add: convertBandAttributes_def str_int_small)
  from general have g1: "length (listEnclosure conv) = 2 \<or> listEnclosure conv = [] \<longrightarrow>
      convertBandAttributes rt attributeDict conv =
        Inr (map (band_entry rt conv) (filter (kept conv) attributeDict))"
    by simp
  from general have g2: "length (listEnclosure conv) \<noteq> 2 \<and> listEnclosure conv \<noteq> [] \<and>
    (\<exists>kv \<in> set attributeDict. kept conv kv \<and> is_ndarray (snd kv)) \<longrightarrow>
      convertBandAttributes rt attributeDict conv = Inl ValueError"
    by simp
  from agree have g3: "\<forall>kv. (\<forall>ys. snd kv \<noteq> PyList ys) \<longrightarrow>
      band_entry rt conv kv = spec_band_entry rt conv kv"
    by blast
  show ?thesis
    by (intro conjI g1 g2 g3 entries examples)
qed

text \<open>The theorem at a mapping with an array, a removed key and a number.\<close>

theorem band_sequences_serialised_witness:
  "convertBandAttributes
      \<lparr>str_elem = str_int, format_other = (\<lambda>v. []), today = ''2024-09-04''\<rparr>
      [(''flag_values'', NdArray [1, 2, 3]), (''units'', PyStr ''m''), (''scale'', PyNum 5)]
      \<lparr>history = [], listEnclosure = ''{}'', listSeparator = '','',
       removeAttributeLst = [''units'']\<rparr>
   = Inr [(''flag_values'', PyStr ''{1,2,3}''), (''scale'', PyNum 5)]"
proof -
  have d: "distinct (map fst
      [(''flag_values'', NdArray [1, 2, 3]), (''units'', PyStr ''m''), (''scale'', PyNum (5::int))])"
    by simp
  from band_sequences_serialised [OF d, where
      conv = "\<lparr>history = [], listEnclosure = ''{}'', listSeparator = '','',
       removeAttributeLst = [''units'']\<rparr>"
      and rt = "\<lparr>str_elem = str_int, format_other = (\<lambda>v. []), today = ''2024-09-04''\<rparr>"]
  have "convertBandAttributes
      \<lparr>str_elem = str_int, format_other = (\<lambda>v. []), today = ''2024-09-04''\<rparr>
      [(''flag_values'', NdArray [1, 2, 3]), (''units'', PyStr ''m''), (''scale'', PyNum 5)]
      \<lparr>history = [], listEnclosure = ''{}'', listSeparator = '','',
       removeAttributeLst = [''units'']\<rparr>
   = Inr (map (band_entry
             \<lparr>str_elem = str_int, format_other = (\<lambda>v. []), today = ''2024-09-04''\<rparr>
             \<lparr>history = [], listEnclosure = ''{}'', listSeparator = '','',
              removeAttributeLst = [''units'']\<rparr>)
           (filter (kept \<lparr>history = [], listEnclosure = ''{}'', listSeparator = '','',
              removeAttributeLst = [''units'']\<rparr>)
             [(''flag_values'', NdArray [1, 2, 3]), (''units'', PyStr ''m''),
              (''scale'', PyNum 5)]))"
    by simp
  then show ?thesis
    by (simp add: band_entry_def str_int_small)
qed

text \<open>
  Claim C8 as the spec states it fails: the plain list \<open>[1, 2, 3]\<close> is a homogeneous
  numeric sequence, which the spec serialises to \<open>{1,2,3}\<close>. The code stores the list as
  it is, and with an enclosure of three characters it raises nothing.
\<close>

theorem band_plain_list_counterexample:
  "convertBandAttributes rt_int [(''flag_values'', PyList [1, 2, 3])]
      \<lparr>history = [], listEnclosure = ''{}'', listSeparator = '','', removeAttributeLst = []\<rparr>
     = Inr [(''flag_values'', PyList [1, 2, 3])] \<and>
   spec_band_entry rt_int
      \<lparr>history = [], listEnclosure = ''{}'', listSeparator = '','', removeAttributeLst = []\<rparr>
      (''flag_values'', PyList [1, 2, 3])
     = (''flag_values'', PyStr ''{1,2,3}'') \<and>
   convertBandAttributes rt_int [(''flag_values'', PyList [1, 2, 3])]
      \<lparr>history = [], listEnclosure = ''{|}'', listSeparator = '','', removeAttributeLst = []\<rparr>
     = Inr [(''flag_values'', PyList [1, 2, 3])]"
  by (simp add: convertBandAttributes_def spec_band_entry_def rt_int_def str_int_small)

text \<open>
  Claim C10. In a dictionary of band attributes, every kept value that is not a
  \<open>numpy.ndarray\<close> is in the result as it was, whenever there is a result. When no kept
  value is an array, the result is the kept entries unchanged, whatever the enclosure is.
  An error is a ValueError, and it needs both an enclosure whose length is neither 0 nor
  2 and a kept array. A plain Python list \<open>[1, 2, 3]\<close> passes through an enclosure of
  three characters.
\<close>

theorem only_arrays_serialised:
  assumes "distinct (map fst attributeDict)"
  shows
  "(\<forall>metadata. convertBandAttributes rt attributeDict conv = Inr metadata \<longrightarrow>
      (\<forall>kv \<in> set attributeDict. kept conv kv \<and> \<not> is_ndarray (snd kv) \<longrightarrow>
         map_of metadata (fst kv) = Some (snd kv))) \<and>
   (\<not> (\<exists>kv \<in> set attributeDict. kept conv kv \<and> is_ndarray (snd kv)) \<longrightarrow>
      convertBandAttributes rt attributeDict conv = Inr (filter (kept conv) attributeDict)) \<and>
   (\<forall>e. convertBandAttributes rt attributeDict conv = Inl e \<longrightarrow>
      e = ValueError \<and> length (listEnclosure conv) \<noteq> 2 \<and> length (listEnclosure conv) \<noteq> 0 \<and>
      (\<exists>kv \<in> set attributeDict. kept conv kv \<and> is_ndarray (snd kv))) \<and>
   convertBandAttributes rt [(k, PyList [1, 2, 3])]
      \<lparr>history = h, listEnclosure = ''{|}'', listSeparator = '','', removeAttributeLst = []\<rparr>
     = Inr [(k, PyList [1, 2, 3])]"
proof -
  note general = band_result [OF assms, of rt conv]
  have pass: "map_of metadata (fst kv) = Some (snd kv)"
    if res: "convertBandAttributes rt attributeDict conv = Inr metadata"
      and kv: "kv \<in> set attributeDict" "kept conv kv" "\<not> is_ndarray (snd kv)"
    for metadata kv
  proof -
    from res general
    have md: "metadata = map (band_entry rt conv) (filter (kept conv) attributeDict)"
      by (simp split: if_splits)
    have "distinct (map fst metadata)"
      unfolding md using assms by (simp add: comp_def distinct_map_filter)
    moreover have "(fst kv, snd kv) \<in> set metadata"
      unfolding md using kv band_entry_other [of kv rt conv] by force
    ultimately show ?thesis by simp
  qed
  have noarr: "convertBandAttributes rt attributeDict conv = Inr (filter (kept conv) attributeDict)"
    if "\<not> (\<exists>kv \<in> set attributeDict. kept conv kv \<and> is_ndarray (snd kv))"
  proof -
    have "map (band_entry rt conv) (filter (kept conv) attributeDict)
            = filter (kept conv) attributeDict"
      using that by (intro map_idI) (auto simp: band_entry_other)
    with general that show ?thesis by simp
  qed
  have err: "e = ValueError \<and> length (listEnclosure conv) \<noteq> 2 \<and> length (listEnclosure conv) \<noteq> 0 \<and>
      (\<exists>kv \<in> set attributeDict. kept conv kv \<and> is_ndarray (snd kv))"
    if "convertBandAttributes rt attributeDict conv = Inl e" for e
    using that general by (simp split: if_splits)
  have ex: "convertBandAttributes rt [(k, PyList [1, 2, 3])]
      \<lparr>history = h, listEnclosure = ''{|}'', listSeparator = '','', removeAttributeLst = []\<rparr>
     = Inr [(k, PyList [1, 2, 3])]"
    by (simp add: convertBandAttributes_def)
  from pass noarr err ex show ?thesis by blast
qed

text \<open>
  The theorem at a mapping with a plain list and an enclosure of three characters.
\<close>

theorem only_arrays_serialised_witness:
  "convertBandAttributes
      \<lparr>str_elem = str_int, format_other = (\<lambda>v. []), today = ''2024-09-04''\<rparr>
      [(''valid_range'', PyList [0, 250]), (''units'', PyStr ''m''), (''scale'', PyNum 5)]
      \<lparr>history = [], listEnclosure = ''{|}'', listSeparator = '','',
       removeAttributeLst = [''units'']\<rparr>
   = Inr [(''valid_range'', PyList [0, 250]), (''scale'', PyNum 5)]"
  using only_arrays_serialised [where attributeDict =
      "[(''valid_range'', PyList [0, 250]), (''units'', PyStr ''m''), (''scale'', PyNum (5::int))]"
      and conv = "\<lparr>history = [], listEnclosure = ''{|}'', listSeparator = '','',
       removeAttributeLst = [''units'']\<rparr>"
      and rt = "\<lparr>str_elem = str_int, format_other = (\<lambda>v. []), today = ''2024-09-04''\<rparr>"]
  by simp

section \<open>File attributes\<close>







section \<open>The safe move\<close>

lemmas safeMove_defs = safeMove_def and_then_def pass_def isfile_def os_remove_def
  shutil_copy_def os_rename_def os_chmod_def commit_def Let_def

text \<open>
  Claim C2, as the code has it, for every environment, with or without failing calls.
  Every file system that \<open>_safeMove\<close> produces shows at \<open>dst\<close> the prior file, no file, or
  the whole source file, never a part of it: the parts are written to the temporary file
  only. When the call fails, \<open>dst\<close> is left in one of these states; it is left in its
  pre-call state when \<open>src\<close> and \<open>dst\<close> differ and the failure is none of removing \<open>dst\<close>,
  renaming, \<open>chmod\<close> and removing \<open>src\<close>, that is, when the removal of a stale temporary
  file or the copy fails. When the call succeeds and \<open>src\<close> and \<open>dst\<close> differ, \<open>src\<close> no
  longer exists and \<open>dst\<close> is the source file with the requested permission bits.
\<close>

theorem safeMove_never_partial:
  "(\<exists>new. seen (snd (safeMove env src dst mode st)) = seen st @ new \<and>
         (\<forall>f \<in> set new. dst_ok (files st) src dst mode (f dst))) \<and>
   (fst (safeMove env src dst mode st) \<noteq> None \<longrightarrow>
      dst_ok (files st) src dst mode (files (snd (safeMove env src dst mode st)) dst)) \<and>
   (fst (safeMove env src dst mode st) \<noteq> None \<and> src \<noteq> dst \<and>
    \<not> fails env (Remove dst) \<and> \<not> fails env (Rename (dst @ ''.temp'') dst) \<and>
    \<not> fails env (Chmod dst mode) \<and> \<not> fails env (Remove src) \<longrightarrow>
      files (snd (safeMove env src dst mode st)) dst = files st dst) \<and>
   (fst (safeMove env src dst mode st) = None \<and> src \<noteq> dst \<longrightarrow>
      files (snd (safeMove env src dst mode st)) src = None \<and>
      (\<exists>g. files st src = Some g \<and>
           files (snd (safeMove env src dst mode st)) dst = Some (g\<lparr>perm := mode\<rparr>)))"
proof (intro conjI)
  show "\<exists>new. seen (snd (safeMove env src dst mode st)) = seen st @ new \<and>
         (\<forall>f \<in> set new. dst_ok (files st) src dst mode (f dst))"
    by (auto simp: safeMove_defs dst_ok_def split: option.splits if_splits)
  show "fst (safeMove env src dst mode st) \<noteq> None \<longrightarrow>
      dst_ok (files st) src dst mode (files (snd (safeMove env src dst mode st)) dst)"
    by (auto simp: safeMove_defs dst_ok_def split: option.splits if_splits)
  show "fst (safeMove env src dst mode st) \<noteq> None \<and> src \<noteq> dst \<and>
    \<not> fails env (Remove dst) \<and> \<not> fails env (Rename (dst @ ''.temp'') dst) \<and>
    \<not> fails env (Chmod dst mode) \<and> \<not> fails env (Remove src) \<longrightarrow>
      files (snd (safeMove env src dst mode st)) dst = files st dst"
    by (auto simp: safeMove_defs split: option.splits if_splits)
  show "fst (safeMove env src dst mode st) = None \<and> src \<noteq> dst \<longrightarrow>
      files (snd (safeMove env src dst mode st)) src = None \<and>
      (\<exists>g. files st src = Some g \<and>
           files (snd (safeMove env src dst mode st)) dst = Some (g\<lparr>perm := mode\<rparr>))"
    by (auto simp: safeMove_defs split: option.splits if_splits)
qed

text \<open>
  The theorem at a move without failures onto an existing output: the call succeeds, the
  output is the new file with mode 0o644, and the source is gone.
\<close>

theorem safeMove_never_partial_witness:
  "fst (safeMove quiet_env ''t/x.tmp.tiff'' ''o/x.tiff'' 420 two_files) = None \<and>
   files (snd (safeMove quiet_env ''t/x.tmp.tiff'' ''o/x.tiff'' 420 two_files)) ''o/x.tiff''
     = Some \<lparr>content = ''new'', perm = 420\<rparr> \<and>
   files (snd (safeMove quiet_env ''t/x.tmp.tiff'' ''o/x.tiff'' 420 two_files)) ''t/x.tmp.tiff''
     = None"
  using safeMove_never_partial [where env = quiet_env and src = "''t/x.tmp.tiff''"
      and dst = "''o/x.tiff''" and mode = 420 and st = two_files]
  by (simp add: safeMove_defs quiet_env_def two_files_def)

text \<open>
  Claim C2 as the spec states it fails twice. Without any failure, the sixth file system
  to appear (after the four steps of the copy and the copy of the mode, \<open>os.remove(dst)\<close>
  has run) has no file at \<open>dst\<close>, though there was one before and there is one after.
  And when \<open>os.rename\<close> fails, the call fails and \<open>dst\<close> is left without a file, not in its
  pre-call state.
\<close>

theorem safeMove_dst_absent_counterexample:
  "files two_files ''o/x.tiff'' = Some \<lparr>content = ''old'', perm = 420\<rparr> \<and>
   fst (safeMove quiet_env ''t/x.tmp.tiff'' ''o/x.tiff'' 420 two_files) = None \<and>
   (seen (snd (safeMove quiet_env ''t/x.tmp.tiff'' ''o/x.tiff'' 420 two_files)) ! 5) ''o/x.tiff''
     = None \<and>
   fst (safeMove rename_fails_env ''t/x.tmp.tiff'' ''o/x.tiff'' 420 two_files)
     = Some (OSError ''o/x.tiff.temp'') \<and>
   files (snd (safeMove rename_fails_env ''t/x.tmp.tiff'' ''o/x.tiff'' 420 two_files)) ''o/x.tiff''
     = None"
  by (simp add: safeMove_defs quiet_env_def rename_fails_env_def two_files_def
      upt_rec eval_nat_numeral)

section \<open>Steps of the pipeline\<close>

lemma and_then_fst_None:
  "fst (and_then a b st) = None \<longleftrightarrow> fst (a st) = None \<and> fst (b (snd (a st))) = None"
  by (cases "a st") (auto simp: and_then_def split: option.splits)

lemma and_then_ok:
  "fst (a st) = None \<Longrightarrow> and_then a b st = b (snd (a st))"
  by (cases "a st") (auto simp: and_then_def)





lemma keeps_os_remove: "p \<noteq> q \<Longrightarrow> keeps p (os_remove env q)"
  by (auto simp: keeps_def os_remove_def commit_def split: option.splits)




lemma safeMove_publishes:
  fixes st :: run_state
  shows "fst (safeMove env src dst mode st) = None \<Longrightarrow> src \<noteq> dst
     \<Longrightarrow> isfile (snd (safeMove env src dst mode st)) dst"
  by (auto simp: safeMove_defs split: option.splits if_splits)

lemma safeMove_lists:
  fixes st :: run_state
  shows "tempFileList (snd (safeMove env src dst mode st)) = tempFileList st \<and>
         cmds (snd (safeMove env src dst mode st)) = cmds st"
  by (auto simp: safeMove_defs split: option.splits if_splits)

lemma and_then_NoneE:
  assumes "fst (and_then a b st) = None"
  obtains st1 where "a st = (None, st1)" and "and_then a b st = b st1"
    and "fst (b st1) = None"
proof -
  from assms have a: "fst (a st) = None" and b: "fst (b (snd (a st))) = None"
    by (simp_all add: and_then_fst_None)
  from a have "a st = (None, snd (a st))" by (metis prod.collapse)
  moreover from a have "and_then a b st = b (snd (a st))" by (rule and_then_ok)
  ultimately show thesis using b that by blast
qed

lemma runShellCmd_lists:
  "tempFileList (snd (runShellCmd env c st)) = tempFileList st"
  by (simp add: runShellCmd_def commit_def Let_def)

lemma setMetadata_lists:
  "tempFileList (snd (setMetadata env rt cfg ad b cogFile st)) = tempFileList st"
  by (auto simp: setMetadata_def commit_def Let_def split: sum.splits option.splits)


lemma and_then_NoneD:
  "fst (and_then a b st) = None
     \<Longrightarrow> \<exists>st1. a st = (None, st1) \<and> and_then a b st = b st1 \<and> fst (b st1) = None"
  by (erule and_then_NoneE) blast

lemma convertBand_success:
  assumes ok: "fst (convertBand env rt cfg ad b f st) = None"
  shows "tempFileList (snd (convertBand env rt cfg ad b f st))
           = tempFileList st @ band_temp_files cfg f"
    and "cogTmpFile_of cfg f \<noteq> cogPath_of cfg f
           \<Longrightarrow> isfile (snd (convertBand env rt cfg ad b f st)) (cogPath_of cfg f)"
proof -
  define mv :: "run_state step"
    where "mv = safeMove env (cogTmpFile_of cfg f) (cogPath_of cfg f) 420"
  define k5 where "k5 = and_then (runShellCmd env (cog_cmd cfg f)) mv"
  define k4 where "k4 = and_then (setMetadata env rt cfg ad b f) k5"
  define app where "app = (\<lambda>st :: run_state. (None :: py_error option,
      st\<lparr>tempFileList := tempFileList st @ [tiffFile_of cfg f @ ''.ovr'']\<rparr>))"
  define ovb where "ovb = and_then (runShellCmd env (overview_cmd cfg b f)) app"
  define ov where "ov = (if cogOverviews cfg \<noteq> []
               then and_then (runShellCmd env (clean_cmd cfg f)) ovb else pass)"
  define k3 where "k3 = and_then ov k4"
  define k2 where "k2 = and_then (runShellCmd env (translate_cmd cfg b f)) k3"
  define st1 where "st1 = st\<lparr>tempFileList := tempFileList st @ [tiffFile_of cfg f]\<rparr>"
  have "convertBand env rt cfg ad b f =
          and_then (\<lambda>st. (None, st\<lparr>tempFileList := tempFileList st @ [tiffFile_of cfg f]\<rparr>)) k2"
    by (simp add: convertBand_def k2_def k3_def ov_def ovb_def app_def k4_def k5_def mv_def)
  then have cb: "convertBand env rt cfg ad b f st = k2 st1"
    by (simp add: and_then_ok st1_def)
  from ok cb have r1: "fst (k2 st1) = None" by simp
  from and_then_NoneD [OF r1 [unfolded k2_def]] obtain st2 where
    s2: "runShellCmd env (translate_cmd cfg b f) st1 = (None, st2)"
    and e2: "k2 st1 = k3 st2" and r2: "fst (k3 st2) = None"
    unfolding k2_def by blast
  from and_then_NoneD [OF r2 [unfolded k3_def]] obtain st3 where
    s3: "ov st2 = (None, st3)" and e3: "k3 st2 = k4 st3" and r3: "fst (k4 st3) = None"
    unfolding k3_def by blast
  from and_then_NoneD [OF r3 [unfolded k4_def]] obtain st4 where
    s4: "setMetadata env rt cfg ad b f st3 = (None, st4)"
    and e4: "k4 st3 = k5 st4" and r4: "fst (k5 st4) = None"
    unfolding k4_def by blast
  from and_then_NoneD [OF r4 [unfolded k5_def]] obtain st5 where
    s5: "runShellCmd env (cog_cmd cfg f) st4 = (None, st5)"
    and e5: "k5 st4 = mv st5" and r5: "fst (mv st5) = None"
    unfolding k5_def by blast
  have final: "convertBand env rt cfg ad b f st = mv st5"
    by (simp only: cb e2 e3 e4 e5)
  have t2: "tempFileList st2 = tempFileList st @ [tiffFile_of cfg f]"
    using runShellCmd_lists [of env "translate_cmd cfg b f" st1] s2 by (simp add: st1_def)
  have t3: "tempFileList st3 = tempFileList st @ band_temp_files cfg f"
  proof (cases "cogOverviews cfg = []")
    case True
    with s3 t2 show ?thesis by (simp add: ov_def pass_def band_temp_files_def)
  next
    case False
    with s3 have ov': "and_then (runShellCmd env (clean_cmd cfg f)) ovb st2 = (None, st3)"
      by (simp add: ov_def)
    then have "fst (and_then (runShellCmd env (clean_cmd cfg f)) ovb st2) = None" by simp
    from and_then_NoneD [OF this] obtain sa where
      sa: "runShellCmd env (clean_cmd cfg f) st2 = (None, sa)"
      and ea: "and_then (runShellCmd env (clean_cmd cfg f)) ovb st2 = ovb sa"
      and ra: "fst (ovb sa) = None"
      by blast
    from and_then_NoneD [OF ra [unfolded ovb_def]] obtain sb where
      sb: "runShellCmd env (overview_cmd cfg b f) sa = (None, sb)"
      and eb: "ovb sa = app sb"
      unfolding ovb_def by blast
    from ov' ea eb have "st3 = sb\<lparr>tempFileList := tempFileList sb @ [tiffFile_of cfg f @ ''.ovr'']\<rparr>"
      by (simp add: app_def)
    moreover have "tempFileList sb = tempFileList st2"
      using runShellCmd_lists [of env "clean_cmd cfg f" st2]
            runShellCmd_lists [of env "overview_cmd cfg b f" sa] sa sb by simp
    ultimately show ?thesis using t2 False by (simp add: band_temp_files_def)
  qed
  have t5: "tempFileList st5 = tempFileList st3"
    using setMetadata_lists [of env rt cfg ad b f st3]
          runShellCmd_lists [of env "cog_cmd cfg f" st4] s4 s5 by simp
  show "tempFileList (snd (convertBand env rt cfg ad b f st))
           = tempFileList st @ band_temp_files cfg f"
    using final t3 t5 safeMove_lists [of env "cogTmpFile_of cfg f" "cogPath_of cfg f" 420 st5]
    by (simp add: mv_def)
  show "isfile (snd (convertBand env rt cfg ad b f st)) (cogPath_of cfg f)"
    if "cogTmpFile_of cfg f \<noteq> cogPath_of cfg f"
    using final r5 that safeMove_publishes [of env "cogTmpFile_of cfg f" "cogPath_of cfg f" 420 st5]
    by (simp add: mv_def)
qed


lemma processBand_cases:
  assumes run: "processBand env rt cfg ad b st = (Inr out, st')"
  obtains f where "band_cogFile cfg b = Some f" "out = Skipped" "st' = st"
      "isfile st (cogPath_of cfg f)" "\<not> overwriteExistingFiles cfg"
    | f where "band_cogFile cfg b = Some f" "out = Published"
      "fst (convertBand env rt cfg ad b f st) = None"
      "st' = snd (convertBand env rt cfg ad b f st)"
proof -
  from run obtain ob where ob: "outBand b = Some ob"
    by (cases "outBand b") (simp_all add: processBand_def)
  from run ob obtain f
    where f: "createCogFileName (basename (inFile cfg)) (inBand b) ob (hasTimeIndex cfg) = Inr f"
    by (cases "createCogFileName (basename (inFile cfg)) (inBand b) ob (hasTimeIndex cfg)")
       (simp_all add: processBand_def)
  from ob f have bc: "band_cogFile cfg b = Some f" by (simp add: band_cogFile_def)
  show thesis
  proof (cases "\<not> overwriteExistingFiles cfg \<and> isfile st (cogPath_of cfg f)")
    case True
    with run ob f have sk: "out = Skipped" "st' = st" by (simp_all add: processBand_def)
    from True have "isfile st (cogPath_of cfg f)" "\<not> overwriteExistingFiles cfg" by simp_all
    with bc sk show thesis by (rule that(1))
  next
    case False
    obtain r s where cb: "convertBand env rt cfg ad b f st = (r, s)"
      by (cases "convertBand env rt cfg ad b f st")
    from run ob f False cb have "r = None \<and> out = Published \<and> st' = s"
      by (cases r) (auto simp: processBand_def)
    with cb have "out = Published" "fst (convertBand env rt cfg ad b f st) = None"
      "st' = snd (convertBand env rt cfg ad b f st)" by simp_all
    with bc show thesis by (rule that(2))
  qed
qed

lemma processBands_ConsE:
  assumes "processBands env rt cfg ad (b # bs) st = ((outs, None), st')"
  obtains out st1 outs' where "processBand env rt cfg ad b st = (Inr out, st1)"
    "processBands env rt cfg ad bs st1 = ((outs', None), st')" "outs = out # outs'"
  using assms by (auto split: prod.splits sum.splits)


lemma bands_temp_files:
  assumes "processBands env rt cfg ad bs st = ((outs, None), st')"
  shows "length outs = length bs \<and> set (tempFileList st) \<subseteq> set (tempFileList st') \<and>
         (\<forall>i < length bs. outs ! i = Published \<longrightarrow>
            (\<exists>f. band_cogFile cfg (bs ! i) = Some f \<and>
                 set (band_temp_files cfg f) \<subseteq> set (tempFileList st')))"
  using assms
proof (induction bs arbitrary: st outs)
  case Nil
  then show ?case by simp
next
  case (Cons b bs)
  from Cons.prems obtain out st1 outs'
    where pb: "processBand env rt cfg ad b st = (Inr out, st1)"
      and rest: "processBands env rt cfg ad bs st1 = ((outs', None), st')"
      and outs: "outs = out # outs'"
    by (rule processBands_ConsE)
  note IH = Cons.IH [OF rest]
  from pb have step: "set (tempFileList st) \<subseteq> set (tempFileList st1) \<and>
      (out = Published \<longrightarrow> (\<exists>f. band_cogFile cfg b = Some f \<and>
                 set (band_temp_files cfg f) \<subseteq> set (tempFileList st1)))"
  proof (cases rule: processBand_cases)
    case (1 f)
    then show ?thesis by simp
  next
    case (2 f)
    have "tempFileList st1 = tempFileList st @ band_temp_files cfg f"
      using convertBand_success(1) [OF 2(3)] 2(4) by simp
    with 2(1) show ?thesis by auto
  qed
  show ?case
  proof (intro conjI allI impI)
    show "length outs = length (b # bs)" using IH outs by simp
    show "set (tempFileList st) \<subseteq> set (tempFileList st')" using IH step by blast
    fix i
    assume i: "i < length (b # bs)" and pub: "outs ! i = Published"
    show "\<exists>f. band_cogFile cfg ((b # bs) ! i) = Some f \<and>
                 set (band_temp_files cfg f) \<subseteq> set (tempFileList st')"
    proof (cases i)
      case 0
      with pub outs have "out = Published" by simp
      with step obtain f where "band_cogFile cfg b = Some f"
        "set (band_temp_files cfg f) \<subseteq> set (tempFileList st1)" by blast
      with IH 0 show ?thesis by auto
    next
      case (Suc j)
      with i pub outs IH show ?thesis by auto
    qed
  qed
qed

lemma removeTempFiles_success:
  "removeTempFiles env ps st = (None, st') \<Longrightarrow>
     (\<forall>p \<in> set ps. files st' p = None) \<and> (\<forall>p. p \<notin> set ps \<longrightarrow> files st' p = files st p) \<and>
     tempFileList st' = tempFileList st \<and> cmds st' = cmds st"
proof (induction ps arbitrary: st)
  case Nil
  then show ?case by (simp add: pass_def)
next
  case (Cons p ps)
  from Cons.prems have "fst (and_then (os_remove env p) (removeTempFiles env ps) st) = None"
    by simp
  from and_then_NoneD [OF this] obtain s1 where
    s1: "os_remove env p st = (None, s1)"
    and e: "and_then (os_remove env p) (removeTempFiles env ps) st = removeTempFiles env ps s1"
    by blast
  from e Cons.prems have rest: "removeTempFiles env ps s1 = (None, st')" by simp
  note IH = Cons.IH [OF rest]
  from s1 have f1: "files s1 = (files st)(p := None)" "tempFileList s1 = tempFileList st"
    "cmds s1 = cmds st"
    by (auto simp: os_remove_def commit_def split: option.splits if_splits)
  show ?case
  proof (intro conjI ballI allI impI)
    fix q assume "q \<in> set (p # ps)"
    then show "files st' q = None"
      using IH f1 by (cases "q \<in> set ps") auto
  next
    fix q assume "q \<notin> set (p # ps)"
    then show "files st' q = files st q" using IH f1 by auto
  next
    show "tempFileList st' = tempFileList st" using IH f1 by simp
    show "cmds st' = cmds st" using IH f1 by simp
  qed
qed

lemma fill_attributes_names:
  "fill_attributes src bs = Inr bs' \<Longrightarrow> map (band_cogFile cfg) bs' = map (band_cogFile cfg) bs"
proof (induction bs arbitrary: bs')
  case Nil
  then show ?case by simp
next
  case (Cons b bs)
  then show ?case
    by (auto simp: band_cogFile_def split: option.splits sum.splits)
qed



lemma fill_attributes_length:
  "fill_attributes src bs = Inr bs' \<Longrightarrow> length bs' = length bs"
  by (induction bs arbitrary: bs') (auto split: option.splits sum.splits)


lemma cogProcessor_successE:
  assumes "fst (cogProcessor env rt cfg src st) = (outs, None)"
  obtains bands sL where "fill_attributes src (bandInfoList cfg) = Inr bands"
    "processBands env rt cfg (nc_attrs src) bands (st\<lparr>tempFileList := []\<rparr>) = ((outs, None), sL)"
    "removeTempFiles env (tempFileList sL) sL = (None, snd (cogProcessor env rt cfg src st))"
proof -
  from assms obtain bands where fa: "fill_attributes src (bandInfoList cfg) = Inr bands"
    by (cases "fill_attributes src (bandInfoList cfg)") (simp_all add: cogProcessor_def)
  obtain outs' r sL
    where pb: "processBands env rt cfg (nc_attrs src) bands (st\<lparr>tempFileList := []\<rparr>)
                 = ((outs', r), sL)"
    by (metis prod.collapse)
  from assms fa pb have r: "r = None" and o: "outs' = outs"
    by (cases r; simp add: cogProcessor_def split: prod.splits)+
  obtain r2 s2 where rm: "removeTempFiles env (tempFileList sL) sL = (r2, s2)"
    by (metis prod.collapse)
  from assms fa pb r o rm have "r2 = None" "snd (cogProcessor env rt cfg src st) = s2"
    by (simp_all add: cogProcessor_def)
  with fa pb r o rm that show thesis by simp
qed






text \<open>The run of the job of one band with the tool chain that succeeds.\<close>

lemma working_run:
  "fst (cogProcessor working_env rt_int one_band_cfg nc_AB empty_state) = ([Published], None)"
  by code_simp

section \<open>A failing tool chain\<close>




section \<open>Removing the temporary files\<close>

text \<open>
  Claim C5, as the code has it. When \<open>cogProcessor\<close> returns without an exception, there
  is a result for every band, and for every band that was published the base image and,
  with overviews configured, the overview file are gone. When the loop over the bands
  ends with an exception, \<open>cogProcessor\<close> returns in the state the loop left: the removal
  of the temporary files does not run.
\<close>

theorem temp_files_removed_on_success:
  "(fst (cogProcessor env rt cfg src st) = (outs, None) \<longrightarrow>
      length outs = length (bandInfoList cfg) \<and>
      (\<forall>i < length outs. outs ! i = Published \<longrightarrow>
         (\<exists>f. band_cogFile cfg (bandInfoList cfg ! i) = Some f \<and>
              files (snd (cogProcessor env rt cfg src st)) (tiffFile_of cfg f) = None \<and>
              (cogOverviews cfg \<noteq> [] \<longrightarrow>
                 files (snd (cogProcessor env rt cfg src st)) (tiffFile_of cfg f @ ''.ovr'') = None)))) \<and>
   (fill_attributes src (bandInfoList cfg) = Inr bands \<and>
    processBands env rt cfg (nc_attrs src) bands (st\<lparr>tempFileList := []\<rparr>) = ((outs, Some e), st1) \<longrightarrow>
      cogProcessor env rt cfg src st = ((outs, Some e), st1))"
proof (intro conjI impI)
  assume ok: "fst (cogProcessor env rt cfg src st) = (outs, None)"
  then obtain bands sL where fa: "fill_attributes src (bandInfoList cfg) = Inr bands"
    and pb: "processBands env rt cfg (nc_attrs src) bands (st\<lparr>tempFileList := []\<rparr>) = ((outs, None), sL)"
    and rm: "removeTempFiles env (tempFileList sL) sL = (None, snd (cogProcessor env rt cfg src st))"
    by (rule cogProcessor_successE)
  note loop = bands_temp_files [OF pb]
  note clean = removeTempFiles_success [OF rm]
  from fa have len: "length bands = length (bandInfoList cfg)" by (rule fill_attributes_length)
  from loop len show "length outs = length (bandInfoList cfg)" by simp
  show "\<forall>i < length outs. outs ! i = Published \<longrightarrow>
         (\<exists>f. band_cogFile cfg (bandInfoList cfg ! i) = Some f \<and>
              files (snd (cogProcessor env rt cfg src st)) (tiffFile_of cfg f) = None \<and>
              (cogOverviews cfg \<noteq> [] \<longrightarrow>
                 files (snd (cogProcessor env rt cfg src st)) (tiffFile_of cfg f @ ''.ovr'') = None))"
  proof (intro allI impI)
    fix i assume i: "i < length outs" and pub: "outs ! i = Published"
    from loop i pub obtain f where f: "band_cogFile cfg (bands ! i) = Some f"
      and sub: "set (band_temp_files cfg f) \<subseteq> set (tempFileList sL)"
      by auto
    from fill_attributes_names [OF fa, of cfg] i loop len
    have "band_cogFile cfg (bands ! i) = band_cogFile cfg (bandInfoList cfg ! i)"
      by (metis length_map nth_map)
    with f have f': "band_cogFile cfg (bandInfoList cfg ! i) = Some f" by simp
    from sub clean have "files (snd (cogProcessor env rt cfg src st)) (tiffFile_of cfg f) = None"
      by (auto simp: band_temp_files_def)
    moreover from sub clean
    have "cogOverviews cfg \<noteq> [] \<longrightarrow>
            files (snd (cogProcessor env rt cfg src st)) (tiffFile_of cfg f @ ''.ovr'') = None"
      by (auto simp: band_temp_files_def)
    ultimately show "\<exists>f. band_cogFile cfg (bandInfoList cfg ! i) = Some f \<and>
              files (snd (cogProcessor env rt cfg src st)) (tiffFile_of cfg f) = None \<and>
              (cogOverviews cfg \<noteq> [] \<longrightarrow>
                 files (snd (cogProcessor env rt cfg src st)) (tiffFile_of cfg f @ ''.ovr'') = None)"
      using f' by blast
  qed
next
  assume "fill_attributes src (bandInfoList cfg) = Inr bands \<and>
    processBands env rt cfg (nc_attrs src) bands (st\<lparr>tempFileList := []\<rparr>) = ((outs, Some e), st1)"
  then show "cogProcessor env rt cfg src st = ((outs, Some e), st1)"
    by (simp add: cogProcessor_def)
qed

text \<open>
  The theorem at a job of one band with overviews and a tool chain that succeeds.
\<close>

theorem temp_files_removed_on_success_witness:
  "fst (cogProcessor working_env rt_int one_band_cfg nc_AB empty_state) = ([Published], None) \<and>
   files (snd (cogProcessor working_env rt_int one_band_cfg nc_AB empty_state))
     ''t/c_gls_N-A_D_R_S_V_base.tiff'' = None \<and>
   files (snd (cogProcessor working_env rt_int one_band_cfg nc_AB empty_state))
     ''t/c_gls_N-A_D_R_S_V_base.tiff.ovr'' = None"
proof -
  note run = working_run
  have name: "band_cogFile one_band_cfg (bandInfoList one_band_cfg ! 0)
                = Some ''c_gls_N-A_D_R_S_V.tiff''"
    by code_simp
  have tiff: "tiffFile_of one_band_cfg ''c_gls_N-A_D_R_S_V.tiff''
                = ''t/c_gls_N-A_D_R_S_V_base.tiff''"
    by code_simp
  have ov: "cogOverviews one_band_cfg \<noteq> []"
    by code_simp
  from temp_files_removed_on_success [where env = working_env and rt = rt_int
      and cfg = one_band_cfg and src = nc_AB and st = empty_state and outs = "[Published]"]
    run
  have "\<exists>f. band_cogFile one_band_cfg (bandInfoList one_band_cfg ! 0) = Some f \<and>
          files (snd (cogProcessor working_env rt_int one_band_cfg nc_AB empty_state))
            (tiffFile_of one_band_cfg f) = None \<and>
          (cogOverviews one_band_cfg \<noteq> [] \<longrightarrow>
             files (snd (cogProcessor working_env rt_int one_band_cfg nc_AB empty_state))
               (tiffFile_of one_band_cfg f @ ''.ovr'') = None)"
    by auto
  with name tiff ov run show ?thesis by auto
qed

text \<open>
  Claim C5 as the spec states it fails: band \<open>A\<close> is published, band \<open>B\<close> fails, and the
  base image of band \<open>A\<close> is still in the temporary folder when the run has ended.
\<close>

theorem temp_files_left_counterexample:
  "fst (cogProcessor b_fails_env rt_int two_band_cfg nc_AB empty_state) =
     ([Published],
      Some (CalledProcessError (translate_cmd two_band_cfg band_B ''c_gls_N-B_D_R_S_V.tiff''))) \<and>
   files (snd (cogProcessor b_fails_env rt_int two_band_cfg nc_AB empty_state))
     ''t/c_gls_N-A_D_R_S_V_base.tiff'' = Some raster \<and>
   tiffFile_of two_band_cfg ''c_gls_N-A_D_R_S_V.tiff'' = ''t/c_gls_N-A_D_R_S_V_base.tiff''"
  by code_simp

section \<open>Skipping an existing output\<close>



end
